theory Spec2Isabelle
  imports Main "HOL-Library.Word"
begin

unbundle bit_operations_syntax

section \<open>The NetDimm protocol driver of netboot/netboot.py\<close>

text \<open>
  A shallow embedding of the class \<open>NetDimm\<close>. Python integers are \<open>int\<close>, byte strings
  are lists of 8-bit words, every exception is a value of the type \<open>error\<close>, and the
  mutable object together with the sockets it creates is an explicit state that each
  method takes and returns. A method whose loop may run forever returns an \<open>option\<close>,
  with \<open>None\<close> for a call that never returns.
\<close>

subsection \<open>Bytes, exceptions and enumerations\<close>

type_synonym byte = "8 word"
type_synonym bytes = "byte list"

datatype error =
    NetDimmException string
  | ValueError
  | StructError
  | SocketError
  | AttributeError

datatype TargetEnum = TARGET_CHIHIRO | TARGET_NAOMI | TARGET_TRIFORCE

datatype TargetVersionEnum =
    TARGET_VERSION_UNKNOWN
  | TARGET_VERSION_1_07
  | TARGET_VERSION_2_03
  | TARGET_VERSION_2_15
  | TARGET_VERSION_3_01
  | TARGET_VERSION_4_01
  | TARGET_VERSION_4_02

text \<open>The string value of each member of \<open>TargetVersionEnum\<close>, in declaration order.\<close>

definition TargetVersionEnum_members :: "(string \<times> TargetVersionEnum) list" where
  "TargetVersionEnum_members =
     [(''UNKNOWN'', TARGET_VERSION_UNKNOWN),
      (''1.07'', TARGET_VERSION_1_07),
      (''2.03'', TARGET_VERSION_2_03),
      (''2.15'', TARGET_VERSION_2_15),
      (''3.01'', TARGET_VERSION_3_01),
      (''4.01'', TARGET_VERSION_4_01),
      (''4.02'', TARGET_VERSION_4_02)]"

text \<open>\<open>TargetVersionEnum(value)\<close>: the member with that value, \<open>ValueError\<close> when there is none.\<close>

definition TargetVersionEnum_of :: "string \<Rightarrow> error + TargetVersionEnum" where
  "TargetVersionEnum_of s =
     (case map_of TargetVersionEnum_members s of
        None \<Rightarrow> Inl ValueError
      | Some v \<Rightarrow> Inr v)"

record NetDimmInfo =
  current_game_crc :: int
  memory_size :: int
  firmware_version :: TargetVersionEnum
  available_game_memory :: int

record NetDimmPacket =
  pktid :: int
  flags :: int
  data :: bytes

subsection \<open>The struct module\<close>

text \<open>
  \<open>struct.pack\<close> with the little-endian formats \<open>I\<close> (32 bits) and \<open>H\<close> (16 bits) raises
  \<open>struct.error\<close> on a value out of range; \<open>struct.unpack\<close> raises it on a buffer of
  the wrong size.
\<close>

definition le_bytes :: "nat \<Rightarrow> int \<Rightarrow> bytes" where
  "le_bytes n v = map (\<lambda>i. word_of_int (drop_bit (8 * i) v)) [0..<n]"

definition le_int :: "bytes \<Rightarrow> int" where
  "le_int bs = foldr (\<lambda>b acc. uint b + 256 * acc) bs 0"

definition pack_I :: "int \<Rightarrow> error + bytes" where
  "pack_I v = (if 0 \<le> v \<and> v < 2 ^ 32 then Inr (le_bytes 4 v) else Inl StructError)"

definition pack_H :: "int \<Rightarrow> error + bytes" where
  "pack_H v = (if 0 \<le> v \<and> v < 2 ^ 16 then Inr (le_bytes 2 v) else Inl StructError)"

definition pack_III :: "int \<Rightarrow> int \<Rightarrow> int \<Rightarrow> error + bytes" where
  "pack_III a b c =
     (case pack_I a of Inl e \<Rightarrow> Inl e | Inr x \<Rightarrow>
      (case pack_I b of Inl e \<Rightarrow> Inl e | Inr y \<Rightarrow>
       (case pack_I c of Inl e \<Rightarrow> Inl e | Inr z \<Rightarrow> Inr (x @ y @ z))))"

definition pack_IIH :: "int \<Rightarrow> int \<Rightarrow> int \<Rightarrow> error + bytes" where
  "pack_IIH a b c =
     (case pack_I a of Inl e \<Rightarrow> Inl e | Inr x \<Rightarrow>
      (case pack_I b of Inl e \<Rightarrow> Inl e | Inr y \<Rightarrow>
       (case pack_H c of Inl e \<Rightarrow> Inl e | Inr z \<Rightarrow> Inr (x @ y @ z))))"

definition unpack_I :: "bytes \<Rightarrow> error + int" where
  "unpack_I bs = (if length bs = 4 then Inr (le_int bs) else Inl StructError)"

text \<open>\<open>struct.unpack("<HHHHI", buf)\<close>.\<close>

definition unpack_HHHHI :: "bytes \<Rightarrow> error + (int \<times> int \<times> int \<times> int \<times> int)" where
  "unpack_HHHHI bs =
     (if length bs = 12
      then Inr (le_int (take 2 bs), le_int (take 2 (drop 2 bs)), le_int (take 2 (drop 4 bs)),
                le_int (take 2 (drop 6 bs)), le_int (drop 8 bs))
      else Inl StructError)"

subsection \<open>zlib.crc32\<close>

text \<open>
  The CRC-32 of IEEE 802.3 as zlib computes it (reflected polynomial \<open>0xEDB88320\<close>):
  the running value is complemented on entry and on exit, and each byte is folded in
  bit by bit. \<open>zlib.crc32(chunk, value)\<close> continues from \<open>value\<close>.
\<close>

definition crc_bit :: "32 word \<Rightarrow> 32 word" where
  "crc_bit c = (if bit c 0 then drop_bit 1 c XOR 0xEDB88320 else drop_bit 1 c)"

definition crc_byte :: "byte \<Rightarrow> 32 word \<Rightarrow> 32 word" where
  "crc_byte b c = (crc_bit ^^ 8) (c XOR ucast b)"

definition zlib_crc32 :: "bytes \<Rightarrow> int \<Rightarrow> int" where
  "zlib_crc32 chunk v = uint (NOT (fold crc_byte chunk (NOT (word_of_int v))))"

subsection \<open>Sockets\<close>

text \<open>
  A socket is scripted by its environment. \<open>inbound\<close> lists what successive \<open>recv\<close>
  calls find: bytes that have arrived, or a failure (a timeout, a reset); once the list
  is exhausted the peer has closed the stream, and \<open>recv\<close> returns the empty byte
  string. \<open>outbound\<close> lists how successive \<open>send\<close> calls fare: the socket accepts at most
  so many bytes of the buffer, or the call fails; once exhausted, every buffer is
  accepted whole. \<open>sent\<close> records the buffers handed to \<open>send\<close>, \<open>wire\<close> the bytes the
  socket accepted, \<open>closes\<close> the number of \<open>close\<close> calls.
\<close>

datatype recv_event = Data bytes | RecvError

datatype send_event = Accept nat | SendError

record socket =
  inbound :: "recv_event list"
  outbound :: "send_event list"
  sent :: "bytes list"
  wire :: bytes
  closes :: nat

text \<open>\<open>sock.recv(n)\<close>: at most \<open>n\<close> of the bytes that have arrived.\<close>

definition socket_recv :: "nat \<Rightarrow> socket \<Rightarrow> (error + bytes) \<times> socket" where
  "socket_recv n s =
     (case inbound s of
        [] \<Rightarrow> (Inr [], s)
      | RecvError # rest \<Rightarrow> (Inl SocketError, s\<lparr>inbound := rest\<rparr>)
      | Data bs # rest \<Rightarrow>
          (Inr (take n bs),
           s\<lparr>inbound := (if length bs \<le> n then rest else Data (drop n bs) # rest)\<rparr>))"

text \<open>\<open>sock.send(buf)\<close>: returns the number of bytes accepted, which may be fewer than given.\<close>

definition socket_send :: "bytes \<Rightarrow> socket \<Rightarrow> (error + nat) \<times> socket" where
  "socket_send buf s =
     (case outbound s of
        [] \<Rightarrow> (Inr (length buf), s\<lparr>sent := sent s @ [buf], wire := wire s @ buf\<rparr>)
      | SendError # rest \<Rightarrow> (Inl SocketError, s\<lparr>outbound := rest\<rparr>)
      | Accept k # rest \<Rightarrow>
          (Inr (min k (length buf)),
           s\<lparr>outbound := rest, sent := sent s @ [buf], wire := wire s @ take k buf\<rparr>))"

definition socket_close :: "socket \<Rightarrow> socket" where
  "socket_close s = s\<lparr>closes := Suc (closes s)\<rparr>"

text \<open>
  What the network holds for the next socket created: whether \<open>connect\<close> succeeds, and
  the scripts of the connection.
\<close>

record peer =
  reachable :: bool
  script_in :: "recv_event list"
  script_out :: "send_event list"

definition new_socket :: "peer \<Rightarrow> socket" where
  "new_socket env = \<lparr>inbound = script_in env, outbound = script_out env,
                     sent = [], wire = [], closes = 0\<rparr>"

subsection \<open>The NetDimm object\<close>

text \<open>
  The attributes of \<open>NetDimm\<close>, with \<open>sock\<close> a reference into \<open>socks\<close>, the store of every
  socket created so far, and \<open>progress\<close> the calls a progress callback has observed.
  Log output (\<open>__print\<close>) is not part of the state.
\<close>

record netdimm =
  ip :: string
  sock :: "nat option"
  quiet :: bool
  target :: TargetEnum
  version :: TargetVersionEnum
  socks :: "socket list"
  progress :: "(nat \<times> nat) list"

text \<open>\<open>NetDimm.__init__\<close>: the target defaults to Naomi, the version to unknown.\<close>

definition NetDimm_init ::
  "string \<Rightarrow> TargetEnum option \<Rightarrow> TargetVersionEnum option \<Rightarrow> bool \<Rightarrow> netdimm" where
  "NetDimm_init addr tgt ver q =
     \<lparr>ip = addr, sock = None, quiet = q,
      target = (case tgt of None \<Rightarrow> TARGET_NAOMI | Some t \<Rightarrow> t),
      version = (case ver of None \<Rightarrow> TARGET_VERSION_UNKNOWN | Some v \<Rightarrow> v),
      socks = [], progress = []\<rparr>"

type_synonym 'a result = "(error + 'a) \<times> netdimm"

text \<open>A call on the socket object behind a reference.\<close>

definition on_socket ::
  "nat \<Rightarrow> (socket \<Rightarrow> (error + 'a) \<times> socket) \<Rightarrow> netdimm \<Rightarrow> 'a result" where
  "on_socket h f nd =
     (case f (socks nd ! h) of (r, s') \<Rightarrow> (r, nd\<lparr>socks := (socks nd)[h := s']\<rparr>))"

subsection \<open>Reading and writing packets\<close>

text \<open>
  \<open>__read\<close>: the loop \<open>while left > 0\<close> asks for \<open>left\<close> bytes, subtracts what it got and
  appends it. It has no exit but \<open>left \<le> 0\<close> or an exception of \<open>recv\<close>.
\<close>

partial_function (option) read_loop ::
  "nat \<Rightarrow> int \<Rightarrow> bytes list \<Rightarrow> netdimm \<Rightarrow> bytes result option" where
  "read_loop h left res nd =
     (if left > 0
      then (case on_socket h (socket_recv (nat left)) nd of
              (Inl e, nd') \<Rightarrow> Some (Inl e, nd')
            | (Inr ret, nd') \<Rightarrow> read_loop h (left - int (length ret)) (res @ [ret]) nd')
      else Some (Inr (concat res), nd))"

definition NetDimm_read :: "int \<Rightarrow> netdimm \<Rightarrow> bytes result option" where
  "NetDimm_read num nd =
     (case sock nd of
        None \<Rightarrow> Some (Inl (NetDimmException ''Not connected to NetDimm''), nd)
      | Some h \<Rightarrow> read_loop h num [] nd)"

text \<open>The header word of a packet: \<open>AABBCCCC\<close>, packet type, flags and length.\<close>

definition header_word :: "NetDimmPacket \<Rightarrow> int" where
  "header_word packet =
     push_bit 24 (pktid packet AND 0xFF) OR push_bit 16 (flags packet AND 0xFF)
       OR (int (length (data packet)) AND 0xFFFF)"

text \<open>\<open>__send_packet\<close>: one \<open>send\<close> call with header and data; its return value is dropped.\<close>

definition send_packet :: "NetDimmPacket \<Rightarrow> netdimm \<Rightarrow> unit result" where
  "send_packet packet nd =
     (case sock nd of
        None \<Rightarrow> (Inl (NetDimmException ''Not connected to NetDimm''), nd)
      | Some h \<Rightarrow>
          (case pack_I (header_word packet) of
             Inl e \<Rightarrow> (Inl e, nd)
           | Inr hdr \<Rightarrow>
               (case on_socket h (socket_send (hdr @ data packet)) nd of
                  (Inl e, nd') \<Rightarrow> (Inl e, nd')
                | (Inr _, nd') \<Rightarrow> (Inr (), nd'))))"

text \<open>\<open>__recv_packet\<close>: a 4-byte header, then as many data bytes as it announces.\<close>

definition recv_packet :: "netdimm \<Rightarrow> NetDimmPacket result option" where
  "recv_packet nd =
     (case NetDimm_read 4 nd of
        None \<Rightarrow> None
      | Some (Inl e, nd1) \<Rightarrow> Some (Inl e, nd1)
      | Some (Inr header, nd1) \<Rightarrow>
          (case unpack_I header of
             Inl e \<Rightarrow> Some (Inl e, nd1)
           | Inr headerbytes \<Rightarrow>
               (let packet = \<lparr>pktid = drop_bit 24 headerbytes AND 0xFF,
                              flags = drop_bit 16 headerbytes AND 0xFF, data = []\<rparr>;
                    len = headerbytes AND 0xFFFF
                in if len > 0
                   then (case NetDimm_read len nd1 of
                           None \<Rightarrow> None
                         | Some (Inl e, nd2) \<Rightarrow> Some (Inl e, nd2)
                         | Some (Inr dat, nd2) \<Rightarrow> Some (Inr (packet\<lparr>data := dat\<rparr>), nd2))
                   else Some (Inr packet, nd1))))"

subsection \<open>Commands\<close>

text \<open>\<open>__startup\<close>: the no-op packet that older firmware expects first.\<close>

definition startup :: "netdimm \<Rightarrow> unit result" where
  "startup nd = send_packet \<lparr>pktid = 0x01, flags = 0x00, data = []\<rparr> nd"

definition host_poke4 :: "int \<Rightarrow> int \<Rightarrow> netdimm \<Rightarrow> unit result" where
  "host_poke4 addr v nd =
     (case pack_III addr 0 v of
        Inl e \<Rightarrow> (Inl e, nd)
      | Inr payload \<Rightarrow> send_packet \<lparr>pktid = 0x11, flags = 0x00, data = payload\<rparr> nd)"

definition exchange_host_mode :: "int \<Rightarrow> int \<Rightarrow> netdimm \<Rightarrow> int result option" where
  "exchange_host_mode mask_bits set_bits nd =
     (case pack_I (push_bit 8 (mask_bits AND 0xFF) OR (set_bits AND 0xFF)) of
        Inl e \<Rightarrow> Some (Inl e, nd)
      | Inr payload \<Rightarrow>
          (case send_packet \<lparr>pktid = 0x07, flags = 0x00, data = payload\<rparr> nd of
             (Inl e, nd1) \<Rightarrow> Some (Inl e, nd1)
           | (Inr _, nd1) \<Rightarrow>
               (case recv_packet nd1 of
                  None \<Rightarrow> None
                | Some (Inl e, nd2) \<Rightarrow> Some (Inl e, nd2)
                | Some (Inr response, nd2) \<Rightarrow>
                    (if pktid response \<noteq> 0x07
                     then Some (Inl (NetDimmException
                            ''Unexpected data returned from set host mode packet!''), nd2)
                     else if length (data response) \<noteq> 4
                     then Some (Inl (NetDimmException
                            ''Unexpected data length returned from set host mode packet!''), nd2)
                     else (case unpack_I (data response) of
                             Inl e \<Rightarrow> Some (Inl e, nd2)
                           | Inr v \<Rightarrow> Some (Inr (v AND 0xFF), nd2))))))"

definition set_host_mode :: "int \<Rightarrow> netdimm \<Rightarrow> unit result option" where
  "set_host_mode mode nd =
     (case exchange_host_mode 0 mode nd of
        None \<Rightarrow> None
      | Some (Inl e, nd1) \<Rightarrow> Some (Inl e, nd1)
      | Some (Inr _, nd1) \<Rightarrow> Some (Inr (), nd1))"

definition set_key_code :: "bytes \<Rightarrow> netdimm \<Rightarrow> unit result" where
  "set_key_code keydata nd =
     (if length keydata \<noteq> 8
      then (Inl (NetDimmException ''Key code must by 8 bytes in length''), nd)
      else send_packet \<lparr>pktid = 0x7F, flags = 0x00, data = keydata\<rparr> nd)"

definition upload :: "nat \<Rightarrow> nat \<Rightarrow> bytes \<Rightarrow> bool \<Rightarrow> netdimm \<Rightarrow> unit result" where
  "upload sequence addr chunk last_chunk nd =
     (case pack_IIH (int sequence) (int addr) 0 of
        Inl e \<Rightarrow> (Inl e, nd)
      | Inr prefix \<Rightarrow>
          send_packet \<lparr>pktid = 0x04, flags = (if last_chunk then 0x81 else 0x80),
                       data = prefix @ chunk\<rparr> nd)"

text \<open>
  The version string \<open>f"{(version >> 8) & 0xFF}.{(version & 0xFF):02}"\<close>: decimal
  digits, the minor number padded with zeros to two places. Both numbers are masked,
  hence never negative.
\<close>

fun str_nat :: "nat \<Rightarrow> string" where
  "str_nat n =
     (if n < 10 then [''0123456789'' ! n]
      else str_nat (n div 10) @ [''0123456789'' ! (n mod 10)])"

declare str_nat.simps [simp del]

definition format_02 :: "nat \<Rightarrow> string" where
  "format_02 n = (let s = str_nat n in replicate (2 - length s) (CHR ''0'') @ s)"

definition version_str :: "int \<Rightarrow> string" where
  "version_str v =
     str_nat (nat (drop_bit 8 v AND 0xFF)) @ ''.'' @ format_02 (nat (v AND 0xFF))"

definition get_information :: "netdimm \<Rightarrow> NetDimmInfo result option" where
  "get_information nd =
     (case send_packet \<lparr>pktid = 0x18, flags = 0x00, data = []\<rparr> nd of
        (Inl e, nd1) \<Rightarrow> Some (Inl e, nd1)
      | (Inr _, nd1) \<Rightarrow>
          (case recv_packet nd1 of
             None \<Rightarrow> None
           | Some (Inl e, nd2) \<Rightarrow> Some (Inl e, nd2)
           | Some (Inr response, nd2) \<Rightarrow>
               (if pktid response \<noteq> 0x18
                then Some (Inl (NetDimmException
                       ''Unexpected data returned from get info packet!''), nd2)
                else if length (data response) \<noteq> 12
                then Some (Inl (NetDimmException
                       ''Unexpected data length returned from get info packet!''), nd2)
                else (case unpack_HHHHI (data response) of
                        Inl e \<Rightarrow> Some (Inl e, nd2)
                      | Inr (unknown, ver, game_memory, dimm_memory, crc) \<Rightarrow>
                          Some (Inr \<lparr>current_game_crc = crc,
                                     memory_size = dimm_memory,
                                     firmware_version =
                                       (case TargetVersionEnum_of (version_str ver) of
                                          Inl _ \<Rightarrow> TARGET_VERSION_UNKNOWN
                                        | Inr fw \<Rightarrow> fw),
                                     available_game_memory = push_bit 20 game_memory\<rparr>,
                                nd2)))))"

definition set_information :: "int \<Rightarrow> nat \<Rightarrow> netdimm \<Rightarrow> unit result" where
  "set_information crc len nd =
     (case pack_III (crc AND 0xFFFFFFFF) (int len) 0 of
        Inl e \<Rightarrow> (Inl e, nd)
      | Inr payload \<Rightarrow> send_packet \<lparr>pktid = 0x19, flags = 0x00, data = payload\<rparr> nd)"

definition restart :: "netdimm \<Rightarrow> unit result" where
  "restart nd = send_packet \<lparr>pktid = 0x0A, flags = 0x00, data = []\<rparr> nd"

definition set_time_limit :: "int \<Rightarrow> netdimm \<Rightarrow> unit result" where
  "set_time_limit minutes nd =
     (case pack_I minutes of
        Inl e \<Rightarrow> (Inl e, nd)
      | Inr payload \<Rightarrow> send_packet \<lparr>pktid = 0x17, flags = 0x00, data = payload\<rparr> nd)"

subsection \<open>The upload pipeline\<close>

text \<open>
  \<open>Crypto.Cipher.DES\<close> is a library outside the repository: the cipher itself is a
  parameter, the function that \<open>DES.new(key, mode)\<close> returns as \<open>encrypt\<close>. What the
  library checks is modelled: \<open>DES.new\<close> raises \<open>ValueError\<close> on a key that is not 8
  bytes long, and \<open>encrypt\<close> in ECB mode on data that is not a multiple of 8 bytes.
\<close>

datatype des_mode = MODE_ECB | MODE_CBC

type_synonym des_lib = "bytes \<Rightarrow> des_mode \<Rightarrow> bytes \<Rightarrow> bytes"

definition DES_new :: "des_lib \<Rightarrow> bytes \<Rightarrow> des_mode \<Rightarrow> error + (bytes \<Rightarrow> bytes)" where
  "DES_new lib k m = (if length k \<noteq> 8 then Inl ValueError else Inr (lib k m))"

definition DES_encrypt :: "(bytes \<Rightarrow> bytes) \<Rightarrow> bytes \<Rightarrow> error + bytes" where
  "DES_encrypt engine plaintext =
     (if length plaintext mod 8 \<noteq> 0 then Inl ValueError else Inr (engine plaintext))"

text \<open>Python's truth value of an \<open>Optional[bytes]\<close>: neither \<open>None\<close> nor empty.\<close>

definition truthy :: "bytes option \<Rightarrow> bool" where
  "truthy key = (case key of None \<Rightarrow> False | Some k \<Rightarrow> k \<noteq> [])"

text \<open>The inner function \<open>__encrypt\<close> of \<open>__upload_file\<close>.\<close>

definition encrypt :: "(bytes \<Rightarrow> bytes) option \<Rightarrow> bytes \<Rightarrow> error + bytes" where
  "encrypt des chunk =
     (case des of
        None \<Rightarrow> Inr chunk
      | Some engine \<Rightarrow>
          (case DES_encrypt engine (rev chunk) of
             Inl e \<Rightarrow> Inl e
           | Inr c \<Rightarrow> Inr (rev c)))"

text \<open>
  The loop \<open>while addr < total\<close> of \<open>__upload_file\<close>, from the values of \<open>crc\<close>, \<open>addr\<close>
  and \<open>sequence\<close> at the loop head to their values at its exit. \<open>cb\<close> says whether the
  progress callback records its calls.
\<close>

function upload_loop ::
  "(bytes \<Rightarrow> bytes) option \<Rightarrow> bool \<Rightarrow> bytes \<Rightarrow> int \<Rightarrow> nat \<Rightarrow> nat \<Rightarrow> netdimm
     \<Rightarrow> (int \<times> nat) result" where
  "upload_loop des cb dat crc addr sequence nd =
     (if addr < length dat
      then (let nd1 = (if cb then nd\<lparr>progress := progress nd @ [(addr, length dat)]\<rparr> else nd);
                current = take 0x8000 (drop addr dat);
                curlen = length current;
                last_packet = (addr + curlen = length dat)
            in case encrypt des current of
                 Inl e \<Rightarrow> (Inl e, nd1)
               | Inr ciphertext \<Rightarrow>
                   (case upload sequence addr ciphertext last_packet nd1 of
                      (Inl e, nd2) \<Rightarrow> (Inl e, nd2)
                    | (Inr _, nd2) \<Rightarrow>
                        upload_loop des cb dat (zlib_crc32 ciphertext crc)
                          (addr + curlen) (sequence + 1) nd2))
      else (Inr (crc, addr), nd))"
  by pat_completeness auto
termination
  by (relation "measure (\<lambda>(des, cb, dat, crc, addr, sequence, nd). length dat - addr)") auto

declare upload_loop.simps [simp del]

definition upload_file :: "des_lib \<Rightarrow> bytes \<Rightarrow> bytes option \<Rightarrow> bool \<Rightarrow> netdimm \<Rightarrow> unit result" where
  "upload_file lib dat key cb nd =
     (case (if truthy key
            then (case DES_new lib (rev (the key)) MODE_ECB of
                    Inl e \<Rightarrow> Inl e
                  | Inr engine \<Rightarrow> Inr (Some engine))
            else Inr None) of
        Inl e \<Rightarrow> (Inl e, nd)
      | Inr des \<Rightarrow>
          (case upload_loop des cb dat 0 0 1 nd of
             (Inl e, nd1) \<Rightarrow> (Inl e, nd1)
           | (Inr (crc, addr), nd1) \<Rightarrow>
               set_information ((NOT crc) AND 0xFFFFFFFF) addr nd1))"

subsection \<open>The boot-ID patch\<close>

definition patch_addr :: "(TargetVersionEnum \<times> int) list" where
  "patch_addr =
     [(TARGET_VERSION_1_07, 0x8000d8a0),
      (TARGET_VERSION_2_03, 0x8000CC6C),
      (TARGET_VERSION_2_15, 0x8000CC6C),
      (TARGET_VERSION_3_01, 0x8000dc5c)]"

definition patch_boot_id_check :: "netdimm \<Rightarrow> unit result" where
  "patch_boot_id_check nd =
     (case map_of patch_addr (version nd) of
        None \<Rightarrow> (Inr (), nd)
      | Some addr \<Rightarrow>
          (if version nd = TARGET_VERSION_3_01
           then host_poke4 (addr + 0) 0x4800001C nd
           else (case host_poke4 (addr + 0) 0x4e800020 nd of
                   (Inl e, nd1) \<Rightarrow> (Inl e, nd1)
                 | (Inr _, nd1) \<Rightarrow>
                     (case host_poke4 (addr + 4) 0x38600000 nd1 of
                        (Inl e, nd2) \<Rightarrow> (Inl e, nd2)
                      | (Inr _, nd2) \<Rightarrow>
                          (case host_poke4 (addr + 8) 0x4e800020 nd2 of
                             (Inl e, nd3) \<Rightarrow> (Inl e, nd3)
                           | (Inr _, nd3) \<Rightarrow> host_poke4 (addr + 12) 0x60000000 nd3)))))"

subsection \<open>The connection and the public operations\<close>

text \<open>
  \<open>__connection\<close>, a context manager. Entering creates the socket, stores it in
  \<open>self.sock\<close> and connects; any failure there is re-raised as a \<open>NetDimmException\<close>, with
  nothing else done. Then \<open>__startup\<close> and the body of the \<open>with\<close> block run inside
  \<open>try\<close>, and the \<open>finally\<close> clause closes the socket and clears \<open>self.sock\<close>.
\<close>

definition connection_finally :: "netdimm \<Rightarrow> unit result" where
  "connection_finally nd =
     (case sock nd of
        None \<Rightarrow> (Inl AttributeError, nd)
      | Some h \<Rightarrow>
          (Inr (), nd\<lparr>socks := (socks nd)[h := socket_close (socks nd ! h)], sock := None\<rparr>))"

definition connection ::
  "peer \<Rightarrow> (netdimm \<Rightarrow> 'a result option) \<Rightarrow> netdimm \<Rightarrow> 'a result option" where
  "connection env body nd =
     (let nd0 = nd\<lparr>sock := Some (length (socks nd)), socks := socks nd @ [new_socket env]\<rparr>
      in if \<not> reachable env
         then Some (Inl (NetDimmException ''Could not connect to NetDimm''), nd0)
         else (case (case startup nd0 of
                       (Inl e, nd1) \<Rightarrow> Some (Inl e, nd1)
                     | (Inr _, nd1) \<Rightarrow> body nd1) of
                 None \<Rightarrow> None
               | Some (r, nd2) \<Rightarrow>
                   (case connection_finally nd2 of
                      (Inl e, nd3) \<Rightarrow> Some (Inl e, nd3)
                    | (Inr _, nd3) \<Rightarrow> Some (r, nd3))))"

definition info :: "peer \<Rightarrow> netdimm \<Rightarrow> NetDimmInfo result option" where
  "info env nd = connection env get_information nd"

definition send ::
  "peer \<Rightarrow> des_lib \<Rightarrow> bytes \<Rightarrow> bytes option \<Rightarrow> bool \<Rightarrow> netdimm \<Rightarrow> unit result option" where
  "send env lib dat key cb nd =
     connection env
       (\<lambda>nd1.
          (let nd2 = (if cb then nd1\<lparr>progress := progress nd1 @ [(0, length dat)]\<rparr> else nd1)
           in case set_host_mode 1 nd2 of
                None \<Rightarrow> None
              | Some (Inl e, nd3) \<Rightarrow> Some (Inl e, nd3)
              | Some (Inr _, nd3) \<Rightarrow>
                  (case (if truthy key then set_key_code (the key) nd3
                         else set_key_code (replicate 8 0) nd3) of
                     (Inl e, nd4) \<Rightarrow> Some (Inl e, nd4)
                   | (Inr _, nd4) \<Rightarrow> Some (upload_file lib dat key cb nd4))))
       nd"

definition reboot :: "peer \<Rightarrow> netdimm \<Rightarrow> unit result option" where
  "reboot env nd =
     connection env
       (\<lambda>nd1.
          (case restart nd1 of
             (Inl e, nd2) \<Rightarrow> Some (Inl e, nd2)
           | (Inr _, nd2) \<Rightarrow>
               (case set_time_limit 10 nd2 of
                  (Inl e, nd3) \<Rightarrow> Some (Inl e, nd3)
                | (Inr _, nd3) \<Rightarrow>
                    (if target nd3 = TARGET_TRIFORCE
                     then Some (patch_boot_id_check nd3)
                     else Some (Inr (), nd3)))))
       nd"

subsection \<open>Notation for the statements\<close>

text \<open>
  The buffer that \<open>__send_packet\<close> hands to the socket for a packet: the header word in
  little-endian order, then the data.
\<close>

abbreviation frame :: "NetDimmPacket \<Rightarrow> bytes" where
  "frame p \<equiv> le_bytes 4 (header_word p) @ data p"

text \<open>
  \<open>sends nd h fs nd'\<close>: between the two states the socket \<open>h\<close> was handed the buffers
  \<open>fs\<close>, was not closed and can still send; the object's attributes are the same.
\<close>

definition sends :: "netdimm \<Rightarrow> nat \<Rightarrow> bytes list \<Rightarrow> netdimm \<Rightarrow> bool" where
  "sends nd h fs nd' \<longleftrightarrow>
     sock nd' = sock nd \<and> target nd' = target nd \<and> version nd' = version nd \<and>
     length (socks nd') = length (socks nd) \<and>
     sent (socks nd' ! h) = sent (socks nd ! h) @ fs \<and>
     closes (socks nd' ! h) = closes (socks nd ! h) \<and>
     SendError \<notin> set (outbound (socks nd' ! h))"

text \<open>A socket the object holds, on which no \<open>send\<close> call is going to fail.\<close>

abbreviation usable :: "netdimm \<Rightarrow> nat \<Rightarrow> bool" where
  "usable nd h \<equiv>
     sock nd = Some h \<and> h < length (socks nd) \<and> SendError \<notin> set (outbound (socks nd ! h))"

text \<open>
  The number of 0x8000-byte slices of a payload, its \<open>i\<close>-th slice, and the packets that
  carry an upload chunk (sequence number \<open>i + 1\<close>, address \<open>i * 0x8000\<close>) and the final
  information. \<open>transmitted\<close> is what goes out for a slice: \<open>reverse(encrypt(reverse(slice)))\<close>
  under the reversed key when there is a key, the slice itself when there is none.
\<close>

abbreviation chunk_count :: "bytes \<Rightarrow> nat" where
  "chunk_count dat \<equiv> (length dat + 0x7FFF) div 0x8000"

abbreviation slice :: "bytes \<Rightarrow> nat \<Rightarrow> bytes" where
  "slice dat i \<equiv> take 0x8000 (drop (i * 0x8000) dat)"

abbreviation upload_packet :: "nat \<Rightarrow> bool \<Rightarrow> bytes \<Rightarrow> NetDimmPacket" where
  "upload_packet i last_chunk chunk \<equiv>
     \<lparr>pktid = 0x04, flags = (if last_chunk then 0x81 else 0x80),
      data = le_bytes 4 (int (Suc i)) @ le_bytes 4 (int (i * 0x8000)) @ le_bytes 2 0 @ chunk\<rparr>"

abbreviation set_info_packet :: "int \<Rightarrow> nat \<Rightarrow> NetDimmPacket" where
  "set_info_packet crc len \<equiv>
     \<lparr>pktid = 0x19, flags = 0x00, data = le_bytes 4 crc @ le_bytes 4 (int len) @ le_bytes 4 0\<rparr>"

abbreviation transmitted :: "des_lib \<Rightarrow> bytes option \<Rightarrow> bytes \<Rightarrow> bytes" where
  "transmitted lib key chunk \<equiv>
     (if truthy key then rev (lib (rev (the key)) MODE_ECB (rev chunk)) else chunk)"

text \<open>The key-code packet of \<open>send\<close>: the key, or eight zero bytes when there is none.\<close>

abbreviation key_code_packet :: "bytes option \<Rightarrow> NetDimmPacket" where
  "key_code_packet key \<equiv>
     \<lparr>pktid = 0x7F, flags = 0x00, data = (if truthy key then the key else replicate 8 0)\<rparr>"

text \<open>The packet of \<open>__host_poke4\<close>: address, a zero word and the value.\<close>

abbreviation poke_packet :: "int \<Rightarrow> int \<Rightarrow> NetDimmPacket" where
  "poke_packet addr v \<equiv>
     \<lparr>pktid = 0x11, flags = 0x00, data = le_bytes 4 addr @ le_bytes 4 0 @ le_bytes 4 v\<rparr>"

section \<open>Properties\<close>

subsection \<open>Packets on a socket\<close>

lemma header_word_range: "0 \<le> header_word p \<and> header_word p < 2 ^ 32"
proof -
  have a: "pktid p AND 0xFF = take_bit 8 (pktid p)"
    using take_bit_eq_mask [of 8 "pktid p"] by (simp add: mask_eq_exp_minus_1)
  have b: "flags p AND 0xFF = take_bit 8 (flags p)"
    using take_bit_eq_mask [of 8 "flags p"] by (simp add: mask_eq_exp_minus_1)
  have c: "int (length (data p)) AND 0xFFFF = take_bit 16 (int (length (data p)))"
    using take_bit_eq_mask [of 16 "int (length (data p))"] by (simp add: mask_eq_exp_minus_1)
  have "header_word p = take_bit 32 (header_word p)"
    unfolding header_word_def a b c
    by (rule bit_eqI) (auto simp add: bit_simps)
  then show ?thesis
    by (metis take_bit_nonnegative take_bit_int_less_exp)
qed

lemma sends_trans: "sends nd h fs nd1 \<Longrightarrow> sends nd1 h gs nd2 \<Longrightarrow> sends nd h (fs @ gs) nd2"
  by (simp add: sends_def)

lemma socket_send_ok:
  assumes "SendError \<notin> set (outbound s)"
  shows "fst (socket_send buf s) =
           Inr (min (case outbound s of Accept k # _ \<Rightarrow> k | _ \<Rightarrow> length buf) (length buf))"
    and "sent (snd (socket_send buf s)) = sent s @ [buf]"
    and "closes (snd (socket_send buf s)) = closes s"
    and "inbound (snd (socket_send buf s)) = inbound s"
    and "SendError \<notin> set (outbound (snd (socket_send buf s)))"
  using assms by (auto simp: socket_send_def split: list.splits send_event.splits)

lemma send_packet_ok:
  assumes "sock nd = Some h" "h < length (socks nd)" "SendError \<notin> set (outbound (socks nd ! h))"
  shows "send_packet p nd =
           (Inr (), nd\<lparr>socks := (socks nd)[h := snd (socket_send (frame p) (socks nd ! h))]\<rparr>)"
proof -
  have "pack_I (header_word p) = Inr (le_bytes 4 (header_word p))"
    using header_word_range [of p] by (simp add: pack_I_def)
  moreover obtain n where "fst (socket_send (frame p) (socks nd ! h)) = Inr n"
    using socket_send_ok(1) [OF assms(3)] by blast
  ultimately show ?thesis
    using assms(1) by (auto simp add: send_packet_def on_socket_def split: prod.splits)
qed

lemma send_packet_sends:
  assumes "sock nd = Some h" "h < length (socks nd)" "SendError \<notin> set (outbound (socks nd ! h))"
  shows "\<exists>nd'. send_packet p nd = (Inr (), nd') \<and> sends nd h [frame p] nd'
     \<and> inbound (socks nd' ! h) = inbound (socks nd ! h) \<and> progress nd' = progress nd"
  using assms socket_send_ok [OF assms(3), of "frame p"]
  by (simp add: send_packet_ok [OF assms] sends_def)

subsection \<open>Reading\<close>

text \<open>When enough bytes have arrived, one \<open>recv\<close> call completes the read.\<close>

lemma read_enough:
  assumes "sock nd = Some h" "h < length (socks nd)"
    and "inbound (socks nd ! h) = Data bs # rest" "0 < n" "nat n \<le> length bs"
  shows "NetDimm_read n nd =
           Some (Inr (take (nat n) bs),
                 nd\<lparr>socks := (socks nd)[h := (socks nd ! h)\<lparr>inbound :=
                   (if length bs \<le> nat n then rest else Data (drop (nat n) bs) # rest)\<rparr>]\<rparr>)"
proof -
  define nd' where "nd' = nd\<lparr>socks := (socks nd)[h := (socks nd ! h)\<lparr>inbound :=
                   (if length bs \<le> nat n then rest else Data (drop (nat n) bs) # rest)\<rparr>]\<rparr>"
  have step: "on_socket h (socket_recv (nat n)) nd = (Inr (take (nat n) bs), nd')"
    using assms(3) by (simp add: on_socket_def socket_recv_def nd'_def)
  have len: "n - int (min (length bs) (nat n)) = 0"
    using assms(4,5) by simp
  have "read_loop h n [] nd = read_loop h 0 [take (nat n) bs] nd'"
    by (subst read_loop.simps) (simp add: step len assms(4))
  also have "\<dots> = Some (Inr (take (nat n) bs), nd')"
    by (subst read_loop.simps) simp
  finally show ?thesis
    using assms(1) by (simp add: NetDimm_read_def nd'_def)
qed

text \<open>
  Once the peer has closed the stream, every \<open>recv\<close> returns the empty byte string,
  \<open>left\<close> stays as it is, and the loop has no way out: by fixpoint induction, no call
  with \<open>left > 0\<close> returns.
\<close>

lemma read_loop_eof_aux:
  assumes "read_loop h left res nd = Some y"
  shows "h < length (socks nd) \<and> inbound (socks nd ! h) = [] \<longrightarrow> left \<le> 0"
proof (rule read_loop.raw_induct
    [where P = "\<lambda>h left res nd y.
        h < length (socks nd) \<and> inbound (socks nd ! h) = [] \<longrightarrow> left \<le> 0", OF _ assms])
  fix rl :: "nat \<Rightarrow> int \<Rightarrow> bytes list \<Rightarrow> netdimm \<Rightarrow> bytes result option"
  fix h left res nd y
  assume IH: "\<And>h left res nd y. rl h left res nd = Some y \<Longrightarrow>
             h < length (socks nd) \<and> inbound (socks nd ! h) = [] \<longrightarrow> left \<le> 0"
  assume eq: "(if 0 < left
      then case on_socket h (socket_recv (nat left)) nd of
           (Inl e, nd') \<Rightarrow> Some (Inl e, nd')
           | (Inr ret, nd') \<Rightarrow> rl h (left - int (length ret)) (res @ [ret]) nd'
      else Some (Inr (concat res), nd)) = Some y"
  show "h < length (socks nd) \<and> inbound (socks nd ! h) = [] \<longrightarrow> left \<le> 0"
  proof (intro impI, rule ccontr)
    assume eof: "h < length (socks nd) \<and> inbound (socks nd ! h) = []"
    assume "\<not> left \<le> 0"
    then have pos: "0 < left" by simp
    have step: "on_socket h (socket_recv (nat left)) nd = (Inr [], nd)"
      using eof by (simp add: on_socket_def socket_recv_def)
    from eq pos step have "rl h left (res @ [[]]) nd = Some y"
      by simp
    from IH [OF this] eof pos show False by simp
  qed
qed

lemma read_loop_eof:
  assumes "h < length (socks nd)" "inbound (socks nd ! h) = []" "0 < left"
  shows "read_loop h left res nd = None"
proof (cases "read_loop h left res nd")
  case (Some y)
  from read_loop_eof_aux [OF this] assms show ?thesis by simp
qed simp

text \<open>
  C8. Read-exact is claimed to end with an error when the peer closes the stream before
  \<open>n\<close> bytes have arrived. It does not: asked for 4 bytes on a stream that delivers 2
  bytes and is then closed by the peer, \<open>__read\<close> takes the 2 bytes and never returns.
\<close>

theorem read_never_returns_after_peer_close:
  "NetDimm_read 4
     ((NetDimm_init ''192.168.1.2'' None None False)
        \<lparr>sock := Some 0,
         socks := [new_socket \<lparr>reachable = True, script_in = [Data [0x0C, 0x00]],
                                script_out = []\<rparr>]\<rparr>) = None"
proof -
  let ?nd = "(NetDimm_init ''192.168.1.2'' None None False)
        \<lparr>sock := Some 0,
         socks := [new_socket \<lparr>reachable = True, script_in = [Data [0x0C, 0x00]],
                                script_out = []\<rparr>]\<rparr>"
  let ?nd' = "(NetDimm_init ''192.168.1.2'' None None False)
        \<lparr>sock := Some 0,
         socks := [new_socket \<lparr>reachable = True, script_in = [], script_out = []\<rparr>]\<rparr>"
  have step: "on_socket 0 (socket_recv 4) ?nd = (Inr [0x0C, 0x00], ?nd')"
    by (simp add: on_socket_def socket_recv_def new_socket_def)
  have "read_loop 0 4 [] ?nd = read_loop 0 2 [[0x0C, 0x00]] ?nd'"
    by (subst read_loop.simps) (simp add: step)
  moreover have "read_loop 0 2 [[0x0C, 0x00]] ?nd' = None"
    by (rule read_loop_eof) (simp_all add: new_socket_def)
  ultimately show ?thesis by (simp add: NetDimm_read_def NetDimm_init_def)
qed

subsection \<open>Writing\<close>

text \<open>
  C9. A packet write is claimed to retry until the whole buffer is written. There is
  one \<open>send\<close> call and its return value is dropped: when the socket accepts 6 of the 12
  bytes of a key-code packet, \<open>__set_key_code\<close> returns normally and only those 6 bytes
  are on the wire.
\<close>

theorem send_packet_drops_unaccepted_bytes:
  "fst (set_key_code [1, 2, 3, 4, 5, 6, 7, 8]
          ((NetDimm_init ''192.168.1.2'' None None False)
             \<lparr>sock := Some 0,
              socks := [new_socket \<lparr>reachable = True, script_in = [],
                                     script_out = [Accept 6]\<rparr>]\<rparr>)) = Inr ()
   \<and> wire (socks (snd (set_key_code [1, 2, 3, 4, 5, 6, 7, 8]
          ((NetDimm_init ''192.168.1.2'' None None False)
             \<lparr>sock := Some 0,
              socks := [new_socket \<lparr>reachable = True, script_in = [],
                                     script_out = [Accept 6]\<rparr>]\<rparr>))) ! 0)
     = [0x08, 0x00, 0x00, 0x7F, 1, 2]"
  by (simp add: set_key_code_def send_packet_def pack_I_def header_word_def le_bytes_def
      on_socket_def socket_send_def new_socket_def NetDimm_init_def upt_rec)

subsection \<open>The socket's life\<close>

text \<open>
  C6. Every socket created is claimed to be closed once and \<open>self.sock\<close> cleared on every
  path, a failed connection included. When \<open>connect\<close> fails, \<open>info\<close> raises
  \<open>NetDimmException\<close> with the socket it created never closed and still held by
  \<open>self.sock\<close>: the \<open>finally\<close> clause covers only the second \<open>try\<close> block.
\<close>

theorem info_connect_failure_leaves_socket_open:
  "info \<lparr>reachable = False, script_in = [], script_out = []\<rparr>
        (NetDimm_init ''192.168.1.2'' None None False) =
     Some (Inl (NetDimmException ''Could not connect to NetDimm''),
           (NetDimm_init ''192.168.1.2'' None None False)
             \<lparr>sock := Some 0,
              socks := [\<lparr>inbound = [], outbound = [], sent = [], wire = [], closes = 0\<rparr>]\<rparr>)"
  by (simp add: info_def connection_def NetDimm_init_def new_socket_def)

subsection \<open>The upload loop\<close>

lemma sends_usable: "usable nd h \<Longrightarrow> sends nd h fs nd' \<Longrightarrow> usable nd' h"
  by (simp add: sends_def)

lemma sends_refl: "usable nd h \<Longrightarrow> sends nd h [] nd"
  by (simp add: sends_def)

lemma sends_progress: "usable nd h \<Longrightarrow> sends nd h [] (nd\<lparr>progress := p\<rparr>)"
  by (simp add: sends_def)

lemma upload_sends:
  assumes "usable nd h" "sequence < 2 ^ 32" "addr < 2 ^ 32"
  shows "\<exists>nd'. upload sequence addr chunk last_chunk nd = (Inr (), nd') \<and>
           sends nd h [frame \<lparr>pktid = 0x04, flags = (if last_chunk then 0x81 else 0x80),
              data = le_bytes 4 (int sequence) @ le_bytes 4 (int addr) @ le_bytes 2 0 @ chunk\<rparr>] nd'"
proof -
  have "pack_IIH (int sequence) (int addr) 0 =
          Inr (le_bytes 4 (int sequence) @ le_bytes 4 (int addr) @ le_bytes 2 0)"
    using assms(2,3) by (simp add: pack_IIH_def pack_I_def pack_H_def)
  then have "upload sequence addr chunk last_chunk nd =
      send_packet \<lparr>pktid = 0x04, flags = (if last_chunk then 0x81 else 0x80),
              data = le_bytes 4 (int sequence) @ le_bytes 4 (int addr) @ le_bytes 2 0 @ chunk\<rparr> nd"
    by (simp only: upload_def sum.case append_assoc)
  moreover from assms(1) have "sock nd = Some h" "h < length (socks nd)"
      "SendError \<notin> set (outbound (socks nd ! h))" by simp_all
  ultimately show ?thesis
    using send_packet_sends [of nd h] by metis
qed

lemma chunk_count_less: "k < chunk_count dat \<longleftrightarrow> k * 0x8000 < length dat"
proof -
  have "k < chunk_count dat \<longleftrightarrow> Suc k \<le> chunk_count dat" by auto
  also have "\<dots> \<longleftrightarrow> Suc k * 0x8000 \<le> length dat + 0x7FFF"
    by (simp only: less_eq_div_iff_mult_less_eq [of "0x8000"] zero_less_numeral)
  also have "\<dots> \<longleftrightarrow> k * 0x8000 < length dat" by auto
  finally show ?thesis .
qed

lemma upload_loop_step:
  assumes "addr < length dat"
    and "encrypt des (take 0x8000 (drop addr dat)) = Inr ctx"
    and "upload sequence addr ctx (addr + length (take 0x8000 (drop addr dat)) = length dat)
           (if cb then nd\<lparr>progress := progress nd @ [(addr, length dat)]\<rparr> else nd) = (Inr (), nd2)"
  shows "upload_loop des cb dat c addr sequence nd =
           upload_loop des cb dat (zlib_crc32 ctx c)
             (addr + length (take 0x8000 (drop addr dat))) (Suc sequence) nd2"
  using assms by (subst upload_loop.simps) (simp add: Let_def)

lemma upload_loop_exit:
  "\<not> addr < length dat \<Longrightarrow> upload_loop des cb dat c addr sequence nd = (Inr (c, addr), nd)"
  by (subst upload_loop.simps) simp

lemma upload_loop_sends:
  assumes "length dat < 2 ^ 32"
    and "\<And>i. i < chunk_count dat \<Longrightarrow> encrypt des (slice dat i) = Inr (ct i)"
  shows "usable nd h \<Longrightarrow> k \<le> chunk_count dat \<Longrightarrow>
    \<exists>nd'. upload_loop des cb dat c (min (k * 0x8000) (length dat)) (Suc k) nd =
             (Inr (foldl (\<lambda>c i. zlib_crc32 (ct i) c) c [k..<chunk_count dat], length dat), nd')
         \<and> sends nd h (map (\<lambda>i. frame (upload_packet i (Suc i = chunk_count dat) (ct i)))
                        [k..<chunk_count dat]) nd'"
proof (induction "chunk_count dat - k" arbitrary: k c nd)
  case 0
  then have "k = chunk_count dat" by simp
  then have "\<not> k * 0x8000 < length dat"
    using chunk_count_less [of k dat] by simp
  then have "min (k * 0x8000) (length dat) = length dat" by simp
  then show ?case
    using 0 by (simp add: sends_refl upload_loop_exit)
next
  case (Suc m)
  let ?n = "chunk_count dat"
  from Suc have kn: "k < ?n" by simp
  then have lt: "k * 0x8000 < length dat"
    using chunk_count_less [of k dat] by simp
  then have addr: "min (k * 0x8000) (length dat) = k * 0x8000" by simp
  let ?nd1 = "if cb then nd\<lparr>progress := progress nd @ [(k * 0x8000, length dat)]\<rparr> else nd"
  have u1: "usable ?nd1 h" using Suc.prems(1) by simp
  have s1: "sends nd h [] ?nd1" using Suc.prems(1) by (simp add: sends_def)
  have last: "(k * 0x8000 + length (slice dat k) = length dat) = (Suc k = ?n)"
  proof -
    have "Suc k = ?n \<longleftrightarrow> \<not> Suc k * 0x8000 < length dat"
      using chunk_count_less [of "Suc k" dat] kn by auto
    then show ?thesis using lt by auto
  qed
  have next_addr: "k * 0x8000 + length (slice dat k) = min (Suc k * 0x8000) (length dat)"
    using lt by auto
  have bounds: "Suc k < 2 ^ 32" "k * 0x8000 < 2 ^ 32"
    using lt assms(1) by auto
  obtain nd2 where up: "upload (Suc k) (k * 0x8000) (ct k)
       (k * 0x8000 + length (slice dat k) = length dat) ?nd1 = (Inr (), nd2)"
    and s2: "sends ?nd1 h [frame (upload_packet k (Suc k = ?n) (ct k))] nd2"
    using upload_sends [OF u1 bounds, of "ct k" "Suc k = ?n"] unfolding last by auto
  have u2: "usable nd2 h" using sends_usable [OF u1 s2] .
  have m: "m = ?n - Suc k" using Suc.hyps(2) by simp
  obtain nd' where loop: "upload_loop des cb dat (zlib_crc32 (ct k) c)
        (min (Suc k * 0x8000) (length dat)) (Suc (Suc k)) nd2 =
       (Inr (foldl (\<lambda>c i. zlib_crc32 (ct i) c) (zlib_crc32 (ct k) c) [Suc k..<?n], length dat), nd')"
    and s3: "sends nd2 h (map (\<lambda>i. frame (upload_packet i (Suc i = ?n) (ct i))) [Suc k..<?n]) nd'"
    using Suc.hyps(1) [OF m u2, of "zlib_crc32 (ct k) c"] kn by auto
  have range: "[k..<?n] = k # [Suc k..<?n]"
    using kn by (simp add: upt_rec)
  have "upload_loop des cb dat c (k * 0x8000) (Suc k) nd =
       (Inr (foldl (\<lambda>c i. zlib_crc32 (ct i) c) c [k..<?n], length dat), nd')"
    unfolding upload_loop_step [OF lt assms(2) [OF kn] up] next_addr
    using loop by (simp add: range)
  moreover have "sends nd h (map (\<lambda>i. frame (upload_packet i (Suc i = ?n) (ct i))) [k..<?n]) nd'"
    using sends_trans [OF sends_trans [OF s1 s2] s3] by (simp add: range)
  ultimately show ?case by (simp only: addr) blast
qed


lemma zlib_crc32_append: "zlib_crc32 (a @ b) v = zlib_crc32 b (zlib_crc32 a v)"
  by (simp add: zlib_crc32_def)

lemma zlib_crc32_chunks_word:
  "foldl (\<lambda>c x. zlib_crc32 (f x) c) (uint (w :: 32 word)) xs =
     zlib_crc32 (concat (map f xs)) (uint w)"
proof (induction xs arbitrary: w)
  case Nil
  show ?case by (simp add: zlib_crc32_def)
next
  case (Cons x xs)
  have "zlib_crc32 (f x) (uint w) = uint (NOT (fold crc_byte (f x) (NOT w)))"
    by (simp add: zlib_crc32_def)
  then show ?case
    using Cons [of "NOT (fold crc_byte (f x) (NOT w))"] by (simp add: zlib_crc32_append)
qed

lemma zlib_crc32_chunks:
  "foldl (\<lambda>c x. zlib_crc32 (f x) c) 0 xs = zlib_crc32 (concat (map f xs)) 0"
  using zlib_crc32_chunks_word [of f 0 xs] by simp

lemma mask32_range: "0 \<le> (x::int) AND 0xFFFFFFFF \<and> x AND 0xFFFFFFFF < 2 ^ 32"
proof -
  have "x AND 0xFFFFFFFF = take_bit 32 x"
    using take_bit_eq_mask [of 32 x] by (simp add: mask_eq_exp_minus_1)
  then show ?thesis
    using take_bit_int_less_exp [of 32 x] by simp
qed

lemma mask32_idem: "((x::int) AND 0xFFFFFFFF) AND 0xFFFFFFFF = x AND 0xFFFFFFFF"
  by (simp add: and.assoc)

lemma set_information_sends:
  assumes "usable nd h" "len < 2 ^ 32"
  shows "\<exists>nd'. set_information (crc AND 0xFFFFFFFF) len nd = (Inr (), nd') \<and>
           sends nd h [frame (set_info_packet (crc AND 0xFFFFFFFF) len)] nd'"
proof -
  have "pack_III ((crc AND 0xFFFFFFFF) AND 0xFFFFFFFF) (int len) 0 =
          Inr (le_bytes 4 (crc AND 0xFFFFFFFF) @ le_bytes 4 (int len) @ le_bytes 4 0)"
    using assms(2) mask32_range [of crc] unfolding mask32_idem
    by (simp add: pack_III_def pack_I_def)
  then have "set_information (crc AND 0xFFFFFFFF) len nd =
      send_packet (set_info_packet (crc AND 0xFFFFFFFF) len) nd"
    by (simp only: set_information_def sum.case)
  moreover from assms(1) have "sock nd = Some h" "h < length (socks nd)"
      "SendError \<notin> set (outbound (socks nd ! h))" by simp_all
  ultimately show ?thesis
    using send_packet_sends [of nd h] by metis
qed

lemma slice_length:
  assumes "i < chunk_count dat"
  shows "length (slice dat i) = (if Suc i = chunk_count dat then length dat - i * 0x8000 else 0x8000)"
proof -
  have lt: "i * 0x8000 < length dat"
    using assms chunk_count_less [of i dat] by simp
  have "Suc i = chunk_count dat \<longleftrightarrow> \<not> Suc i * 0x8000 < length dat"
    using chunk_count_less [of "Suc i" dat] assms by auto
  then show ?thesis using lt by auto
qed

lemma slice_dvd:
  assumes "8 dvd length dat"
  shows "length (slice dat i) mod 8 = 0"
proof -
  have "(8::nat) dvd i * 0x8000" by simp
  then have "8 dvd length dat - i * 0x8000"
    using assms by (rule_tac dvd_diff_nat) 
  moreover have "(8::nat) dvd 0x8000" by simp
  ultimately have "8 dvd min (length dat - i * 0x8000) (0x8000::nat)"
    by (simp add: min_def)
  then show ?thesis by (simp add: dvd_eq_mod_eq_0)
qed

lemma upload_file_sends:
  assumes "usable nd h" "length dat < 2 ^ 32"
    and "\<not> truthy key \<or> length (the key) = 8 \<and> 8 dvd length dat"
  shows "\<exists>nd'. upload_file lib dat key cb nd = (Inr (), nd') \<and>
           sends nd h
             (map (\<lambda>i. frame (upload_packet i (Suc i = chunk_count dat)
                                 (transmitted lib key (slice dat i)))) [0..<chunk_count dat] @
              [frame (set_info_packet
                 ((NOT (zlib_crc32 (concat (map (\<lambda>i. transmitted lib key (slice dat i))
                     [0..<chunk_count dat])) 0)) AND 0xFFFFFFFF) (length dat))]) nd'"
proof -
  let ?n = "chunk_count dat"
  let ?ct = "\<lambda>i. transmitted lib key (slice dat i)"
  define des where "des = (if truthy key then Some (lib (rev (the key)) MODE_ECB) else None)"
  have new: "(if truthy key
            then (case DES_new lib (rev (the key)) MODE_ECB of
                    Inl e \<Rightarrow> Inl e
                  | Inr engine \<Rightarrow> Inr (Some engine))
            else Inr None) = Inr des"
    using assms(3) by (auto simp: DES_new_def des_def)
  have enc: "\<And>i. i < ?n \<Longrightarrow> encrypt des (slice dat i) = Inr (?ct i)"
    using assms(3) slice_dvd [of dat]
    by (auto simp: encrypt_def des_def DES_encrypt_def)
  obtain nd1 where loop: "upload_loop des cb dat 0 0 1 nd =
       (Inr (foldl (\<lambda>c i. zlib_crc32 (?ct i) c) 0 [0..<?n], length dat), nd1)"
    and s1: "sends nd h (map (\<lambda>i. frame (upload_packet i (Suc i = ?n) (?ct i))) [0..<?n]) nd1"
    using upload_loop_sends [OF assms(2) enc assms(1), of 0 cb 0] by auto
  have u1: "usable nd1 h" using sends_usable [OF assms(1) s1] .
  obtain nd' where si: "set_information
        ((NOT (zlib_crc32 (concat (map ?ct [0..<?n])) 0)) AND 0xFFFFFFFF) (length dat) nd1 = (Inr (), nd')"
    and s2: "sends nd1 h [frame (set_info_packet
        ((NOT (zlib_crc32 (concat (map ?ct [0..<?n])) 0)) AND 0xFFFFFFFF) (length dat))] nd'"
    using set_information_sends [OF u1 assms(2)] by blast
  have "upload_file lib dat key cb nd = (Inr (), nd')"
    unfolding upload_file_def new
    by (simp only: sum.case loop prod.case zlib_crc32_chunks si)
  then show ?thesis
    using sends_trans [OF s1 s2] by blast
qed

subsection \<open>What the upload sends\<close>

lemma concat_slices_take:
  "concat (map (slice dat) [0..<k]) = take (k * 0x8000) dat"
proof (induction k)
  case 0
  show ?case by simp
next
  case (Suc k)
  have "take (k * 0x8000) dat @ take 0x8000 (drop (k * 0x8000) dat) = take (k * 0x8000 + 0x8000) dat"
    by (simp add: take_add)
  then show ?case using Suc by (simp add: add.commute)
qed

lemma concat_slices: "concat (map (slice dat) [0..<chunk_count dat]) = dat"
proof -
  have "\<not> chunk_count dat < chunk_count dat" by simp
  then have "length dat \<le> chunk_count dat * 0x8000"
    using chunk_count_less [of "chunk_count dat" dat] by simp
  then show ?thesis by (simp only: concat_slices_take take_all)
qed

text \<open>
  C1. On a socket whose \<open>send\<close> calls do not fail, for every payload shorter than 4 GiB,
  with no key or with an 8-byte key and a payload that is a multiple of 8 bytes (the
  inputs on which neither \<open>struct\<close> nor the DES library raises), \<open>__upload_file\<close>
  returns normally; the chunks \<open>cts\<close> it sent are the transmitted forms of the slices;
  its last packet is set-info carrying \<open>(~c) & 0xFFFFFFFF\<close>, \<open>c\<close> being the CRC
  accumulated chunk by chunk from 0, and the payload's length; that accumulation is the
  one-shot CRC of the concatenated chunks; and without a key the chunks are the payload.
\<close>

theorem upload_file_set_info_crc:
  assumes "sock nd = Some h" "h < length (socks nd)"
    and "SendError \<notin> set (outbound (socks nd ! h))"
    and "length dat < 2 ^ 32"
    and "\<not> truthy key \<or> length (the key) = 8 \<and> 8 dvd length dat"
  shows "\<exists>nd' cts.
      upload_file lib dat key cb nd = (Inr (), nd')
    \<and> cts = map (\<lambda>i. transmitted lib key (slice dat i)) [0..<chunk_count dat]
    \<and> sent (socks nd' ! h) =
        sent (socks nd ! h)
        @ map (\<lambda>i. frame (upload_packet i (Suc i = chunk_count dat) (cts ! i)))
            [0..<chunk_count dat]
        @ [frame (set_info_packet
             ((NOT (foldl (\<lambda>crc ct. zlib_crc32 ct crc) 0 cts)) AND 0xFFFFFFFF) (length dat))]
    \<and> foldl (\<lambda>crc ct. zlib_crc32 ct crc) 0 cts = zlib_crc32 (concat cts) 0
    \<and> (\<not> truthy key \<longrightarrow> concat cts = dat)"
proof -
  let ?n = "chunk_count dat"
  let ?cts = "map (\<lambda>i. transmitted lib key (slice dat i)) [0..<?n]"
  from assms(1-3) have u: "usable nd h" by simp
  obtain nd' where run: "upload_file lib dat key cb nd = (Inr (), nd')"
    and s: "sends nd h
             (map (\<lambda>i. frame (upload_packet i (Suc i = ?n) (transmitted lib key (slice dat i))))
                [0..<?n] @
              [frame (set_info_packet ((NOT (zlib_crc32 (concat ?cts) 0)) AND 0xFFFFFFFF)
                 (length dat))]) nd'"
    using upload_file_sends [OF u assms(4,5)] by blast
  have crc: "foldl (\<lambda>crc ct. zlib_crc32 ct crc) 0 ?cts = zlib_crc32 (concat ?cts) 0"
    using zlib_crc32_chunks [of "\<lambda>ct. ct" ?cts] by simp
  have nth: "map (\<lambda>i. frame (upload_packet i (Suc i = ?n) (?cts ! i))) [0..<?n] =
      map (\<lambda>i. frame (upload_packet i (Suc i = ?n) (transmitted lib key (slice dat i)))) [0..<?n]"
    by (rule map_cong) simp_all
  have plain: "\<not> truthy key \<longrightarrow> concat ?cts = dat"
    using concat_slices [of dat] by simp
  have log: "sent (socks nd' ! h) =
        sent (socks nd ! h)
        @ map (\<lambda>i. frame (upload_packet i (Suc i = ?n) (?cts ! i))) [0..<?n]
        @ [frame (set_info_packet
             ((NOT (foldl (\<lambda>crc ct. zlib_crc32 ct crc) 0 ?cts)) AND 0xFFFFFFFF) (length dat))]"
    unfolding nth crc using s by (simp only: sends_def)
  from run log crc plain show ?thesis by blast
qed


theorem upload_file_set_info_crc_witness:
  "\<forall>lib.
     sock ((NetDimm_init ''192.168.1.2'' None None False)
        \<lparr>sock := Some 0, socks := [new_socket \<lparr>reachable = True, script_in = [], script_out = []\<rparr>]\<rparr>)
       = Some 0
   \<and> (0::nat) < length (socks ((NetDimm_init ''192.168.1.2'' None None False)
        \<lparr>sock := Some 0, socks := [new_socket \<lparr>reachable = True, script_in = [], script_out = []\<rparr>]\<rparr>))
   \<and> SendError \<notin> set (outbound (socks ((NetDimm_init ''192.168.1.2'' None None False)
        \<lparr>sock := Some 0, socks := [new_socket \<lparr>reachable = True, script_in = [], script_out = []\<rparr>]\<rparr>) ! 0))
   \<and> length (replicate 0x10000 (0::byte)) < 2 ^ 32
   \<and> length (the (Some [1, 2, 3, 4, 5, 6, 7, 8 :: byte])) = 8
   \<and> 8 dvd length (replicate 0x10000 (0::byte))
   \<and> (\<exists>nd'. upload_file lib (replicate 0x10000 0) (Some [1, 2, 3, 4, 5, 6, 7, 8]) False
          ((NetDimm_init ''192.168.1.2'' None None False)
             \<lparr>sock := Some 0,
              socks := [new_socket \<lparr>reachable = True, script_in = [], script_out = []\<rparr>]\<rparr>)
        = (Inr (), nd')
      \<and> sent (socks nd' ! 0) =
          [frame (upload_packet 0 False
             (rev (lib [8, 7, 6, 5, 4, 3, 2, 1] MODE_ECB (replicate 0x8000 0)))),
           frame (upload_packet 1 True
             (rev (lib [8, 7, 6, 5, 4, 3, 2, 1] MODE_ECB (replicate 0x8000 0)))),
           frame (set_info_packet
             ((NOT (zlib_crc32
                 (rev (lib [8, 7, 6, 5, 4, 3, 2, 1] MODE_ECB (replicate 0x8000 0)) @
                  rev (lib [8, 7, 6, 5, 4, 3, 2, 1] MODE_ECB (replicate 0x8000 0))) 0))
              AND 0xFFFFFFFF) 0x10000)])"
proof
  fix lib :: des_lib
  let ?nd = "(NetDimm_init ''192.168.1.2'' None None False)
        \<lparr>sock := Some 0, socks := [new_socket \<lparr>reachable = True, script_in = [], script_out = []\<rparr>]\<rparr>"
  let ?dat = "replicate 0x10000 (0::byte)"
  let ?key = "Some [1, 2, 3, 4, 5, 6, 7, 8 :: byte]"
  have h1: "sock ?nd = Some 0" by simp
  have h2: "(0::nat) < length (socks ?nd)" by simp
  have h3: "SendError \<notin> set (outbound (socks ?nd ! 0))" by (simp add: new_socket_def)
  have h4: "length ?dat < 2 ^ 32" by simp
  have h5: "length (the ?key) = 8" "8 dvd length ?dat" by simp_all
  then have h5': "\<not> truthy ?key \<or> length (the ?key) = 8 \<and> 8 dvd length ?dat" by blast
  have n: "chunk_count ?dat = 2" by simp
  have r: "[0..<2] = [0, Suc 0]" by (simp add: upt_rec)
  have t: "truthy ?key" by (simp add: truthy_def)
  from upload_file_set_info_crc [OF h1 h2 h3 h4 h5', of lib False]
  have "\<exists>nd'. upload_file lib ?dat ?key False ?nd = (Inr (), nd')
      \<and> sent (socks nd' ! 0) =
          [frame (upload_packet 0 False
             (rev (lib [8, 7, 6, 5, 4, 3, 2, 1] MODE_ECB (replicate 0x8000 0)))),
           frame (upload_packet 1 True
             (rev (lib [8, 7, 6, 5, 4, 3, 2, 1] MODE_ECB (replicate 0x8000 0)))),
           frame (set_info_packet
             ((NOT (zlib_crc32
                 (rev (lib [8, 7, 6, 5, 4, 3, 2, 1] MODE_ECB (replicate 0x8000 0)) @
                  rev (lib [8, 7, 6, 5, 4, 3, 2, 1] MODE_ECB (replicate 0x8000 0))) 0))
              AND 0xFFFFFFFF) 0x10000)]"
    unfolding n r by (simp add: t new_socket_def zlib_crc32_append)
  with h1 h2 h3 h4 h5 show "sock ?nd = Some 0
   \<and> (0::nat) < length (socks ?nd)
   \<and> SendError \<notin> set (outbound (socks ?nd ! 0))
   \<and> length ?dat < 2 ^ 32
   \<and> length (the ?key) = 8
   \<and> 8 dvd length ?dat
   \<and> (\<exists>nd'. upload_file lib ?dat ?key False ?nd = (Inr (), nd')
      \<and> sent (socks nd' ! 0) =
          [frame (upload_packet 0 False
             (rev (lib [8, 7, 6, 5, 4, 3, 2, 1] MODE_ECB (replicate 0x8000 0)))),
           frame (upload_packet 1 True
             (rev (lib [8, 7, 6, 5, 4, 3, 2, 1] MODE_ECB (replicate 0x8000 0)))),
           frame (set_info_packet
             ((NOT (zlib_crc32
                 (rev (lib [8, 7, 6, 5, 4, 3, 2, 1] MODE_ECB (replicate 0x8000 0)) @
                  rev (lib [8, 7, 6, 5, 4, 3, 2, 1] MODE_ECB (replicate 0x8000 0))) 0))
              AND 0xFFFFFFFF) 0x10000)])"
    by (intro conjI)
qed

text \<open>
  C2. Under the same conditions, for every non-empty payload \<open>__upload_file\<close> returns
  normally having sent one packet 0x04 per slice and then one final packet: the \<open>i\<close>-th
  (from 0) carries sequence number \<open>i + 1\<close>, address \<open>i * 0x8000\<close> and flags 0x80, but
  the last one, which carries 0x81; every slice is 0x8000 bytes long but the last, which
  is the remainder; and the slices in order make up the payload.
\<close>

theorem upload_file_chunks:
  assumes "sock nd = Some h" "h < length (socks nd)"
    and "SendError \<notin> set (outbound (socks nd ! h))"
    and "length dat < 2 ^ 32"
    and "\<not> truthy key \<or> length (the key) = 8 \<and> 8 dvd length dat"
    and "dat \<noteq> []"
  shows "\<exists>nd' cts final.
      upload_file lib dat key cb nd = (Inr (), nd')
    \<and> 0 < chunk_count dat \<and> length cts = chunk_count dat
    \<and> sent (socks nd' ! h) =
        sent (socks nd ! h)
        @ map (\<lambda>i. frame \<lparr>pktid = 0x04,
                            flags = (if Suc i = chunk_count dat then 0x81 else 0x80),
                            data = le_bytes 4 (int (Suc i)) @ le_bytes 4 (int (i * 0x8000))
                                   @ le_bytes 2 0 @ cts ! i\<rparr>)
            [0..<chunk_count dat]
        @ [final]
    \<and> (\<forall>i<chunk_count dat.
          cts ! i = transmitted lib key (slice dat i)
        \<and> length (slice dat i) =
            (if Suc i = chunk_count dat then length dat - i * 0x8000 else 0x8000))
    \<and> concat (map (slice dat) [0..<chunk_count dat]) = dat"
proof -
  let ?n = "chunk_count dat"
  let ?cts = "map (\<lambda>i. transmitted lib key (slice dat i)) [0..<?n]"
  from assms(1-3) have u: "usable nd h" by simp
  obtain nd' final where run: "upload_file lib dat key cb nd = (Inr (), nd')"
    and s: "sends nd h
             (map (\<lambda>i. frame (upload_packet i (Suc i = ?n) (transmitted lib key (slice dat i))))
                [0..<?n] @ [final]) nd'"
    using upload_file_sends [OF u assms(4,5)] by blast
  have pos: "0 < ?n"
    using chunk_count_less [of 0 dat] assms(6) by simp
  have nth: "map (\<lambda>i. frame (upload_packet i (Suc i = ?n) (?cts ! i))) [0..<?n] =
      map (\<lambda>i. frame (upload_packet i (Suc i = ?n) (transmitted lib key (slice dat i)))) [0..<?n]"
    by (rule map_cong) simp_all
  have log: "sent (socks nd' ! h) =
        sent (socks nd ! h)
        @ map (\<lambda>i. frame (upload_packet i (Suc i = ?n) (?cts ! i))) [0..<?n] @ [final]"
    unfolding nth using s by (simp only: sends_def)
  have each: "\<forall>i<?n. ?cts ! i = transmitted lib key (slice dat i)
        \<and> length (slice dat i) = (if Suc i = ?n then length dat - i * 0x8000 else 0x8000)"
    using slice_length [of _ dat] by simp
  have len: "length ?cts = ?n" by simp
  from run pos len log each concat_slices [of dat] show ?thesis by blast
qed

theorem upload_file_chunks_witness:
  "\<forall>lib.
     sock ((NetDimm_init ''192.168.1.2'' None None False)
        \<lparr>sock := Some 0, socks := [new_socket \<lparr>reachable = True, script_in = [], script_out = []\<rparr>]\<rparr>)
       = Some 0
   \<and> (0::nat) < length (socks ((NetDimm_init ''192.168.1.2'' None None False)
        \<lparr>sock := Some 0, socks := [new_socket \<lparr>reachable = True, script_in = [], script_out = []\<rparr>]\<rparr>))
   \<and> SendError \<notin> set (outbound (socks ((NetDimm_init ''192.168.1.2'' None None False)
        \<lparr>sock := Some 0, socks := [new_socket \<lparr>reachable = True, script_in = [], script_out = []\<rparr>]\<rparr>) ! 0))
   \<and> length (replicate 0x10000 (0::byte)) < 2 ^ 32
   \<and> \<not> truthy None
   \<and> replicate 0x10000 (0::byte) \<noteq> []
   \<and> (\<exists>nd' final. upload_file lib (replicate 0x10000 0) None False
          ((NetDimm_init ''192.168.1.2'' None None False)
             \<lparr>sock := Some 0,
              socks := [new_socket \<lparr>reachable = True, script_in = [], script_out = []\<rparr>]\<rparr>)
        = (Inr (), nd')
      \<and> sent (socks nd' ! 0) =
          [frame \<lparr>pktid = 0x04, flags = 0x80,
                  data = le_bytes 4 1 @ le_bytes 4 0 @ le_bytes 2 0 @ replicate 0x8000 0\<rparr>,
           frame \<lparr>pktid = 0x04, flags = 0x81,
                  data = le_bytes 4 2 @ le_bytes 4 0x8000 @ le_bytes 2 0 @ replicate 0x8000 0\<rparr>,
           final])"
proof
  fix lib :: des_lib
  let ?nd = "(NetDimm_init ''192.168.1.2'' None None False)
        \<lparr>sock := Some 0, socks := [new_socket \<lparr>reachable = True, script_in = [], script_out = []\<rparr>]\<rparr>"
  let ?dat = "replicate 0x10000 (0::byte)"
  have h1: "sock ?nd = Some 0" by simp
  have h2: "(0::nat) < length (socks ?nd)" by simp
  have h3: "SendError \<notin> set (outbound (socks ?nd ! 0))" by (simp add: new_socket_def)
  have h4: "length ?dat < 2 ^ 32" by simp
  have h5: "\<not> truthy None" by (simp add: truthy_def)
  then have h5': "\<not> truthy None \<or> length (the None :: bytes) = 8 \<and> 8 dvd length ?dat" by blast
  have h6: "?dat \<noteq> []" by simp
  have n: "chunk_count ?dat = 2" by simp
  have r: "[0..<2] = [0, Suc 0]" by (simp add: upt_rec)
  from upload_file_chunks [OF h1 h2 h3 h4 h5' h6, of lib False]
  obtain nd' cts final where run: "upload_file lib ?dat None False ?nd = (Inr (), nd')"
    and log: "sent (socks nd' ! 0) =
        sent (socks ?nd ! 0)
        @ map (\<lambda>i. frame \<lparr>pktid = 0x04,
                            flags = (if Suc i = chunk_count ?dat then 0x81 else 0x80),
                            data = le_bytes 4 (int (Suc i)) @ le_bytes 4 (int (i * 0x8000))
                                   @ le_bytes 2 0 @ cts ! i\<rparr>)
            [0..<chunk_count ?dat]
        @ [final]"
    and each: "\<forall>i<chunk_count ?dat. cts ! i = transmitted lib None (slice ?dat i)
        \<and> length (slice ?dat i) =
            (if Suc i = chunk_count ?dat then length ?dat - i * 0x8000 else 0x8000)"
    by blast
  from each have c0: "cts ! 0 = replicate 0x8000 0" and c1: "cts ! Suc 0 = replicate 0x8000 0"
    unfolding n by (simp_all add: h5)
  have "sent (socks nd' ! 0) =
          [frame \<lparr>pktid = 0x04, flags = 0x80,
                  data = le_bytes 4 1 @ le_bytes 4 0 @ le_bytes 2 0 @ replicate 0x8000 0\<rparr>,
           frame \<lparr>pktid = 0x04, flags = 0x81,
                  data = le_bytes 4 2 @ le_bytes 4 0x8000 @ le_bytes 2 0 @ replicate 0x8000 0\<rparr>,
           final]"
    using log unfolding n r by (simp add: c0 c1 new_socket_def)
  with run have "\<exists>nd' final. upload_file lib ?dat None False ?nd = (Inr (), nd')
      \<and> sent (socks nd' ! 0) =
          [frame \<lparr>pktid = 0x04, flags = 0x80,
                  data = le_bytes 4 1 @ le_bytes 4 0 @ le_bytes 2 0 @ replicate 0x8000 0\<rparr>,
           frame \<lparr>pktid = 0x04, flags = 0x81,
                  data = le_bytes 4 2 @ le_bytes 4 0x8000 @ le_bytes 2 0 @ replicate 0x8000 0\<rparr>,
           final]"
    by blast
  with h1 h2 h3 h4 h5 h6 show "sock ?nd = Some 0
   \<and> (0::nat) < length (socks ?nd)
   \<and> SendError \<notin> set (outbound (socks ?nd ! 0))
   \<and> length ?dat < 2 ^ 32
   \<and> \<not> truthy None
   \<and> ?dat \<noteq> []
   \<and> (\<exists>nd' final. upload_file lib ?dat None False ?nd = (Inr (), nd')
      \<and> sent (socks nd' ! 0) =
          [frame \<lparr>pktid = 0x04, flags = 0x80,
                  data = le_bytes 4 1 @ le_bytes 4 0 @ le_bytes 2 0 @ replicate 0x8000 0\<rparr>,
           frame \<lparr>pktid = 0x04, flags = 0x81,
                  data = le_bytes 4 2 @ le_bytes 4 0x8000 @ le_bytes 2 0 @ replicate 0x8000 0\<rparr>,
           final])"
    by (intro conjI)
qed

subsection \<open>Replies and the connection\<close>

lemma recv_packet_reply:
  assumes "sock nd = Some h" "h < length (socks nd)"
    and "inbound (socks nd ! h) = Data (hdr @ payload) # rest"
    and "length hdr = 4" "payload \<noteq> []"
    and "le_int hdr AND 0xFFFF = int (length payload)"
  shows "\<exists>nd'. recv_packet nd =
           Some (Inr \<lparr>pktid = drop_bit 24 (le_int hdr) AND 0xFF,
                      flags = drop_bit 16 (le_int hdr) AND 0xFF, data = payload\<rparr>, nd')
         \<and> sock nd' = sock nd \<and> target nd' = target nd \<and> version nd' = version nd
         \<and> progress nd' = progress nd \<and> length (socks nd') = length (socks nd)
         \<and> inbound (socks nd' ! h) = rest
         \<and> outbound (socks nd' ! h) = outbound (socks nd ! h)
         \<and> sent (socks nd' ! h) = sent (socks nd ! h)
         \<and> closes (socks nd' ! h) = closes (socks nd ! h)"
proof -
  define nd1 where "nd1 = nd\<lparr>socks := (socks nd)[h := (socks nd ! h)\<lparr>inbound :=
      Data payload # rest\<rparr>]\<rparr>"
  define nd2 where "nd2 = nd1\<lparr>socks := (socks nd1)[h := (socks nd1 ! h)\<lparr>inbound := rest\<rparr>]\<rparr>"
  have r1: "NetDimm_read 4 nd = Some (Inr hdr, nd1)"
    using read_enough [OF assms(1-3), of 4] assms(4,5) by (simp add: nd1_def)
  have in1: "inbound (socks nd1 ! h) = Data payload # rest"
    and s1: "sock nd1 = Some h" and l1: "h < length (socks nd1)"
    using assms(1,2) by (simp_all add: nd1_def)
  have pos: "0 < int (length payload)" using assms(5) by simp
  have r2: "NetDimm_read (int (length payload)) nd1 = Some (Inr payload, nd2)"
    using read_enough [OF s1 l1 in1 pos] by (simp add: nd2_def)
  have "recv_packet nd =
           Some (Inr \<lparr>pktid = drop_bit 24 (le_int hdr) AND 0xFF,
                      flags = drop_bit 16 (le_int hdr) AND 0xFF, data = payload\<rparr>, nd2)"
    using pos by (simp add: recv_packet_def r1 unpack_I_def assms(4,6) Let_def r2)
  moreover have "sock nd2 = sock nd" "target nd2 = target nd" "version nd2 = version nd"
    "progress nd2 = progress nd" "length (socks nd2) = length (socks nd)"
    "inbound (socks nd2 ! h) = rest" "outbound (socks nd2 ! h) = outbound (socks nd ! h)"
    "sent (socks nd2 ! h) = sent (socks nd ! h)" "closes (socks nd2 ! h) = closes (socks nd ! h)"
    using assms(2) by (simp_all add: nd2_def nd1_def)
  ultimately show ?thesis by blast
qed

lemma set_host_mode_sends:
  assumes "usable nd h"
    and "inbound (socks nd ! h) = Data ([4, 0, 0, 7] @ mode) # rest" "length mode = 4"
  shows "\<exists>nd'. set_host_mode 1 nd = Some (Inr (), nd')
         \<and> sends nd h [frame \<lparr>pktid = 0x07, flags = 0x00, data = le_bytes 4 1\<rparr>] nd'
         \<and> progress nd' = progress nd"
proof -
  have pk: "pack_I (push_bit 8 (0 AND 0xFF) OR (1 AND 0xFF)) = Inr (le_bytes 4 1)"
    by (simp add: pack_I_def)
  from assms(1) have a: "sock nd = Some h" "h < length (socks nd)"
      "SendError \<notin> set (outbound (socks nd ! h))" by simp_all
  obtain nd1 where sp: "send_packet \<lparr>pktid = 0x07, flags = 0x00, data = le_bytes 4 1\<rparr> nd = (Inr (), nd1)"
    and s1: "sends nd h [frame \<lparr>pktid = 0x07, flags = 0x00, data = le_bytes 4 1\<rparr>] nd1"
    and in1: "inbound (socks nd1 ! h) = inbound (socks nd ! h)"
    and p1: "progress nd1 = progress nd"
    using send_packet_sends [OF a] by blast
  have u1: "usable nd1 h" using sends_usable [OF assms(1) s1] .
  have hdr: "le_int [4, 0, 0, 7 :: byte] = 117440516" by (simp add: le_int_def)
  have len: "le_int [4, 0, 0, 7 :: byte] AND 0xFFFF = int (length mode)"
    unfolding hdr using assms(3) by simp
  have ne: "mode \<noteq> []" using assms(3) by auto
  from u1 have b: "sock nd1 = Some h" "h < length (socks nd1)" by simp_all
  have in1': "inbound (socks nd1 ! h) = Data ([4, 0, 0, 7] @ mode) # rest"
    using in1 assms(2) by simp
  obtain nd2 where rp: "recv_packet nd1 =
           Some (Inr \<lparr>pktid = drop_bit 24 (le_int [4, 0, 0, 7 :: byte]) AND 0xFF,
                      flags = drop_bit 16 (le_int [4, 0, 0, 7 :: byte]) AND 0xFF, data = mode\<rparr>, nd2)"
    and f: "sock nd2 = sock nd1" "target nd2 = target nd1" "version nd2 = version nd1"
      "progress nd2 = progress nd1" "length (socks nd2) = length (socks nd1)"
      "outbound (socks nd2 ! h) = outbound (socks nd1 ! h)"
      "sent (socks nd2 ! h) = sent (socks nd1 ! h)"
      "closes (socks nd2 ! h) = closes (socks nd1 ! h)"
    using recv_packet_reply [OF b in1' _ ne len] by auto
  have s2: "sends nd h [frame \<lparr>pktid = 0x07, flags = 0x00, data = le_bytes 4 1\<rparr>] nd2"
    using s1 f by (simp add: sends_def)
  have "set_host_mode 1 nd = Some (Inr (), nd2)"
    unfolding set_host_mode_def exchange_host_mode_def pk
    by (simp add: sp rp hdr unpack_I_def assms(3))
  with s2 f(4) p1 show ?thesis by simp
qed

lemma set_key_code_sends:
  assumes "usable nd h" "length k = 8"
  shows "\<exists>nd'. set_key_code k nd = (Inr (), nd')
         \<and> sends nd h [frame \<lparr>pktid = 0x7F, flags = 0x00, data = k\<rparr>] nd'
         \<and> progress nd' = progress nd"
proof -
  from assms(1) have a: "sock nd = Some h" "h < length (socks nd)"
      "SendError \<notin> set (outbound (socks nd ! h))" by simp_all
  show ?thesis
    using send_packet_sends [OF a, of "\<lparr>pktid = 0x7F, flags = 0x00, data = k\<rparr>"] assms(2)
    by (simp add: set_key_code_def) blast
qed

lemma connection_runs:
  assumes "reachable env" "SendError \<notin> set (script_out env)"
    and body: "\<And>nd1. usable nd1 (length (socks nd)) \<Longrightarrow>
        sent (socks nd1 ! length (socks nd)) = [frame \<lparr>pktid = 0x01, flags = 0x00, data = []\<rparr>] \<Longrightarrow>
        inbound (socks nd1 ! length (socks nd)) = script_in env \<Longrightarrow>
        closes (socks nd1 ! length (socks nd)) = 0 \<Longrightarrow>
        target nd1 = target nd \<Longrightarrow> version nd1 = version nd \<Longrightarrow>
        \<exists>nd2. body nd1 = Some (r, nd2) \<and> sends nd1 (length (socks nd)) fs nd2"
  shows "\<exists>nd'. connection env body nd = Some (r, nd') \<and> sock nd' = None
         \<and> sent (socks nd' ! length (socks nd)) =
             frame \<lparr>pktid = 0x01, flags = 0x00, data = []\<rparr> # fs
         \<and> closes (socks nd' ! length (socks nd)) = 1
         \<and> target nd' = target nd \<and> version nd' = version nd"
proof -
  let ?h = "length (socks nd)"
  define nd0 where "nd0 = nd\<lparr>sock := Some ?h, socks := socks nd @ [new_socket env]\<rparr>"
  have a: "sock nd0 = Some ?h" "?h < length (socks nd0)"
      "SendError \<notin> set (outbound (socks nd0 ! ?h))"
    using assms(2) by (simp_all add: nd0_def new_socket_def)
  obtain nd1 where st: "startup nd0 = (Inr (), nd1)"
    and s1: "sends nd0 ?h [frame \<lparr>pktid = 0x01, flags = 0x00, data = []\<rparr>] nd1"
    and in1: "inbound (socks nd1 ! ?h) = inbound (socks nd0 ! ?h)"
    unfolding startup_def using send_packet_sends [OF a] by blast
  have u1: "usable nd1 ?h" using sends_usable [OF _ s1] a by simp
  have p1: "sent (socks nd1 ! ?h) = [frame \<lparr>pktid = 0x01, flags = 0x00, data = []\<rparr>]"
    "inbound (socks nd1 ! ?h) = script_in env" "closes (socks nd1 ! ?h) = 0"
    "target nd1 = target nd" "version nd1 = version nd"
    using s1 in1 by (simp_all add: sends_def nd0_def new_socket_def)
  obtain nd2 where b: "body nd1 = Some (r, nd2)" and s2: "sends nd1 ?h fs nd2"
    using body [OF u1 p1] by blast
  have u2: "usable nd2 ?h" using sends_usable [OF u1 s2] .
  define nd3 where "nd3 = nd2\<lparr>socks := (socks nd2)[?h := socket_close (socks nd2 ! ?h)], sock := None\<rparr>"
  have fin: "connection_finally nd2 = (Inr (), nd3)"
    using u2 by (simp add: connection_finally_def nd3_def)
  have run: "connection env body nd = Some (r, nd3)"
    unfolding connection_def Let_def nd0_def [symmetric]
    by (simp add: assms(1) st b fin)
  have "sock nd3 = None"
    "sent (socks nd3 ! ?h) = frame \<lparr>pktid = 0x01, flags = 0x00, data = []\<rparr> # fs"
    "closes (socks nd3 ! ?h) = 1" "target nd3 = target nd" "version nd3 = version nd"
    using u2 s2 p1 by (simp_all add: nd3_def socket_close_def sends_def)
  with run show ?thesis by blast
qed

subsection \<open>A whole send\<close>

text \<open>
  What \<open>send\<close> puts on a fresh connection when the device is reachable, no \<open>send\<close>
  call fails and the device answers the host-mode request with a packet 0x07 of four
  bytes: the startup no-op, the host-mode request, the key code, the chunks and set-info;
  then it closes the socket.
\<close>

lemma send_runs:
  assumes "reachable env" "SendError \<notin> set (script_out env)"
    and "script_in env = Data ([4, 0, 0, 7] @ mode) # rest" "length mode = 4"
    and "length dat < 2 ^ 32"
    and "\<not> truthy key \<or> length (the key) = 8 \<and> 8 dvd length dat"
  shows "\<exists>nd'. send env lib dat key cb nd = Some (Inr (), nd') \<and> sock nd' = None
         \<and> sent (socks nd' ! length (socks nd)) =
             frame \<lparr>pktid = 0x01, flags = 0x00, data = []\<rparr>
             # frame \<lparr>pktid = 0x07, flags = 0x00, data = le_bytes 4 1\<rparr>
             # frame (key_code_packet key)
             # map (\<lambda>i. frame (upload_packet i (Suc i = chunk_count dat)
                                 (transmitted lib key (slice dat i)))) [0..<chunk_count dat]
             @ [frame (set_info_packet
                 ((NOT (zlib_crc32 (concat (map (\<lambda>i. transmitted lib key (slice dat i))
                     [0..<chunk_count dat])) 0)) AND 0xFFFFFFFF) (length dat))]
         \<and> closes (socks nd' ! length (socks nd)) = 1"
proof -
  let ?h = "length (socks nd)"
  let ?up = "map (\<lambda>i. frame (upload_packet i (Suc i = chunk_count dat)
                                 (transmitted lib key (slice dat i)))) [0..<chunk_count dat]
             @ [frame (set_info_packet
                 ((NOT (zlib_crc32 (concat (map (\<lambda>i. transmitted lib key (slice dat i))
                     [0..<chunk_count dat])) 0)) AND 0xFFFFFFFF) (length dat))]"
  let ?body = "\<lambda>nd1.
          (let nd2 = (if cb then nd1\<lparr>progress := progress nd1 @ [(0, length dat)]\<rparr> else nd1)
           in case set_host_mode 1 nd2 of
                None \<Rightarrow> None
              | Some (Inl e, nd3) \<Rightarrow> Some (Inl e, nd3)
              | Some (Inr _, nd3) \<Rightarrow>
                  (case (if truthy key then set_key_code (the key) nd3
                         else set_key_code (replicate 8 0) nd3) of
                     (Inl e, nd4) \<Rightarrow> Some (Inl e, nd4)
                   | (Inr _, nd4) \<Rightarrow> Some (upload_file lib dat key cb nd4)))"
  have body: "\<exists>nd5. ?body nd1 = Some (Inr (), nd5) \<and>
       sends nd1 ?h (frame \<lparr>pktid = 0x07, flags = 0x00, data = le_bytes 4 1\<rparr>
             # frame (key_code_packet key) # ?up) nd5"
    if u1: "usable nd1 ?h" and in1: "inbound (socks nd1 ! ?h) = script_in env" for nd1
  proof -
    let ?nd2 = "if cb then nd1\<lparr>progress := progress nd1 @ [(0, length dat)]\<rparr> else nd1"
    have u2: "usable ?nd2 ?h" using u1 by simp
    have s12: "sends nd1 ?h [] ?nd2" using u1 by (simp add: sends_def)
    have in2: "inbound (socks ?nd2 ! ?h) = Data ([4, 0, 0, 7] @ mode) # rest"
      using in1 assms(3) by simp
    obtain nd3 where hm: "set_host_mode 1 ?nd2 = Some (Inr (), nd3)"
      and s23: "sends ?nd2 ?h [frame \<lparr>pktid = 0x07, flags = 0x00, data = le_bytes 4 1\<rparr>] nd3"
      using set_host_mode_sends [OF u2 in2 assms(4)] by blast
    have u3: "usable nd3 ?h" using sends_usable [OF u2 s23] .
    have klen: "length (if truthy key then the key else replicate 8 0) = 8"
      using assms(6) by auto
    obtain nd4 where kc: "set_key_code (if truthy key then the key else replicate 8 0) nd3 = (Inr (), nd4)"
      and s34: "sends nd3 ?h [frame (key_code_packet key)] nd4"
      using set_key_code_sends [OF u3 klen] by blast
    have kc': "(if truthy key then set_key_code (the key) nd3
                         else set_key_code (replicate 8 0) nd3) = (Inr (), nd4)"
      using kc by (simp split: if_splits)
    have u4: "usable nd4 ?h" using sends_usable [OF u3 s34] .
    obtain nd5 where uf: "upload_file lib dat key cb nd4 = (Inr (), nd5)"
      and s45: "sends nd4 ?h ?up nd5"
      using upload_file_sends [OF u4 assms(5,6)] by blast
    have "?body nd1 = Some (Inr (), nd5)"
      by (simp only: Let_def hm option.case prod.case sum.case kc' uf)
    moreover have "sends nd1 ?h (frame \<lparr>pktid = 0x07, flags = 0x00, data = le_bytes 4 1\<rparr>
             # frame (key_code_packet key) # ?up) nd5"
      using sends_trans [OF sends_trans [OF sends_trans [OF s12 s23] s34] s45] by simp
    ultimately show ?thesis by blast
  qed
  from connection_runs [where body = ?body and r = "Inr ()", OF assms(1,2) body]
  show ?thesis
    unfolding send_def by blast
qed


text \<open>
  C3. With a key \<open>K\<close> of 8 bytes and a payload that is a multiple of 8 bytes long,
  \<open>send\<close> keys the DES engine with \<open>reverse(K)\<close> in ECB mode, and every chunk on the
  wire is \<open>reverse(DES_encrypt(reverse(slice)))\<close> for the 0x8000-byte slice of the
  payload at that position; the CRC of set-info is taken over these transmitted chunks.
  The key-code packet carries \<open>K\<close> itself.
\<close>

theorem send_encrypts_reversed:
  assumes "reachable env" "SendError \<notin> set (script_out env)"
    and "script_in env = Data ([4, 0, 0, 7] @ mode) # rest" "length mode = 4"
    and "length dat < 2 ^ 32"
    and "length K = 8" "8 dvd length dat"
  shows "\<exists>nd'. send env lib dat (Some K) cb nd = Some (Inr (), nd')
         \<and> sent (socks nd' ! length (socks nd)) =
             frame \<lparr>pktid = 0x01, flags = 0x00, data = []\<rparr>
             # frame \<lparr>pktid = 0x07, flags = 0x00, data = le_bytes 4 1\<rparr>
             # frame \<lparr>pktid = 0x7F, flags = 0x00, data = K\<rparr>
             # map (\<lambda>i. frame (upload_packet i (Suc i = chunk_count dat)
                                 (rev (lib (rev K) MODE_ECB (rev (slice dat i))))))
                 [0..<chunk_count dat]
             @ [frame (set_info_packet
                 ((NOT (zlib_crc32
                     (concat (map (\<lambda>i. rev (lib (rev K) MODE_ECB (rev (slice dat i))))
                        [0..<chunk_count dat])) 0)) AND 0xFFFFFFFF) (length dat))]"
proof -
  have t: "truthy (Some K)" using assms(6) by (auto simp: truthy_def)
  have k: "\<not> truthy (Some K) \<or> length (the (Some K)) = 8 \<and> 8 dvd length dat"
    using assms(6,7) by simp
  from send_runs [OF assms(1-5) k, of lib cb nd] show ?thesis
    by (simp only: t if_True option.sel) blast
qed

theorem send_encrypts_reversed_witness:
  "\<forall>lib.
     reachable \<lparr>reachable = True, script_in = [Data [4, 0, 0, 7, 1, 0, 0, 0]], script_out = []\<rparr>
   \<and> SendError \<notin> set (script_out
        \<lparr>reachable = True, script_in = [Data [4, 0, 0, 7, 1, 0, 0, 0]], script_out = []\<rparr>)
   \<and> script_in \<lparr>reachable = True, script_in = [Data [4, 0, 0, 7, 1, 0, 0, 0]], script_out = []\<rparr>
       = Data ([4, 0, 0, 7] @ [1, 0, 0, 0]) # []
   \<and> length [1, 0, 0, 0 :: byte] = 4
   \<and> length [0, 1, 2, 3, 4, 5, 6, 7 :: byte] < 2 ^ 32
   \<and> length [1, 2, 3, 4, 5, 6, 7, 8 :: byte] = 8
   \<and> 8 dvd length [0, 1, 2, 3, 4, 5, 6, 7 :: byte]
   \<and> (\<exists>nd'. send \<lparr>reachable = True, script_in = [Data [4, 0, 0, 7, 1, 0, 0, 0]],
                     script_out = []\<rparr> lib
               [0, 1, 2, 3, 4, 5, 6, 7] (Some [1, 2, 3, 4, 5, 6, 7, 8]) False
               (NetDimm_init ''192.168.1.2'' None None False) = Some (Inr (), nd')
        \<and> sent (socks nd' ! 0) =
            [frame \<lparr>pktid = 0x01, flags = 0x00, data = []\<rparr>,
             frame \<lparr>pktid = 0x07, flags = 0x00, data = le_bytes 4 1\<rparr>,
             frame \<lparr>pktid = 0x7F, flags = 0x00, data = [1, 2, 3, 4, 5, 6, 7, 8]\<rparr>,
             frame (upload_packet 0 True
               (rev (lib [8, 7, 6, 5, 4, 3, 2, 1] MODE_ECB (rev [0, 1, 2, 3, 4, 5, 6, 7])))),
             frame (set_info_packet
               ((NOT (zlib_crc32
                  (rev (lib [8, 7, 6, 5, 4, 3, 2, 1] MODE_ECB (rev [0, 1, 2, 3, 4, 5, 6, 7]))) 0))
                AND 0xFFFFFFFF) 8)])"
proof
  fix lib :: des_lib
  let ?env = "\<lparr>reachable = True, script_in = [Data [4, 0, 0, 7, 1, 0, 0, 0 :: byte]],
                script_out = []\<rparr>"
  let ?dat = "[0, 1, 2, 3, 4, 5, 6, 7 :: byte]"
  let ?K = "[1, 2, 3, 4, 5, 6, 7, 8 :: byte]"
  let ?nd = "NetDimm_init ''192.168.1.2'' None None False"
  have h1: "reachable ?env" by simp
  have h2: "SendError \<notin> set (script_out ?env)" by simp
  have h3: "script_in ?env = Data ([4, 0, 0, 7] @ [1, 0, 0, 0]) # []" by simp
  have h4: "length [1, 0, 0, 0 :: byte] = 4" by simp
  have h5: "length ?dat < 2 ^ 32" by simp
  have h6: "length ?K = 8" by simp
  have "length ?dat = 8" by simp
  then have h7: "8 dvd length ?dat" by (simp only: dvd_refl)
  have r: "[0..<Suc 0] = [0]" by simp
  from send_encrypts_reversed [OF h1 h2 h3 h4 h5 h6 h7, of lib False ?nd]
  have "\<exists>nd'. send ?env lib ?dat (Some ?K) False ?nd = Some (Inr (), nd')
        \<and> sent (socks nd' ! 0) =
            [frame \<lparr>pktid = 0x01, flags = 0x00, data = []\<rparr>,
             frame \<lparr>pktid = 0x07, flags = 0x00, data = le_bytes 4 1\<rparr>,
             frame \<lparr>pktid = 0x7F, flags = 0x00, data = ?K\<rparr>,
             frame (upload_packet 0 True
               (rev (lib [8, 7, 6, 5, 4, 3, 2, 1] MODE_ECB (rev ?dat)))),
             frame (set_info_packet
               ((NOT (zlib_crc32
                  (rev (lib [8, 7, 6, 5, 4, 3, 2, 1] MODE_ECB (rev ?dat))) 0))
                AND 0xFFFFFFFF) 8)]"
    by (simp add: NetDimm_init_def)
  with h1 h2 h3 h4 h5 h6 h7 show
    "reachable ?env
   \<and> SendError \<notin> set (script_out ?env)
   \<and> script_in ?env = Data ([4, 0, 0, 7] @ [1, 0, 0, 0]) # []
   \<and> length [1, 0, 0, 0 :: byte] = 4
   \<and> length ?dat < 2 ^ 32
   \<and> length ?K = 8
   \<and> 8 dvd length ?dat
   \<and> (\<exists>nd'. send ?env lib ?dat (Some ?K) False ?nd = Some (Inr (), nd')
        \<and> sent (socks nd' ! 0) =
            [frame \<lparr>pktid = 0x01, flags = 0x00, data = []\<rparr>,
             frame \<lparr>pktid = 0x07, flags = 0x00, data = le_bytes 4 1\<rparr>,
             frame \<lparr>pktid = 0x7F, flags = 0x00, data = ?K\<rparr>,
             frame (upload_packet 0 True
               (rev (lib [8, 7, 6, 5, 4, 3, 2, 1] MODE_ECB (rev ?dat)))),
             frame (set_info_packet
               ((NOT (zlib_crc32
                  (rev (lib [8, 7, 6, 5, 4, 3, 2, 1] MODE_ECB (rev ?dat))) 0))
                AND 0xFFFFFFFF) 8)])"
    by (intro conjI)
qed

text \<open>
  C10. For the empty payload \<open>send\<close> returns normally, without an error: after the
  startup no-op, the host-mode request and the key code it sends no upload packet at all,
  and then one set-info packet with crc 0xFFFFFFFF and length 0.
\<close>

theorem send_empty_payload:
  assumes "reachable env" "SendError \<notin> set (script_out env)"
    and "script_in env = Data ([4, 0, 0, 7] @ mode) # rest" "length mode = 4"
    and "\<not> truthy key \<or> length (the key) = 8"
  shows "\<exists>nd'. send env lib [] key cb nd = Some (Inr (), nd')
         \<and> sent (socks nd' ! length (socks nd)) =
             [frame \<lparr>pktid = 0x01, flags = 0x00, data = []\<rparr>,
              frame \<lparr>pktid = 0x07, flags = 0x00, data = le_bytes 4 1\<rparr>,
              frame (key_code_packet key),
              frame (set_info_packet 0xFFFFFFFF 0)]"
proof -
  have k: "\<not> truthy key \<or> length (the key) = 8 \<and> 8 dvd length ([] :: bytes)"
    using assms(5) by simp
  have l: "length ([] :: bytes) < 2 ^ 32" by simp
  have crc: "(NOT (zlib_crc32 [] 0)) AND 0xFFFFFFFF = 0xFFFFFFFF"
    by (simp add: zlib_crc32_def)
  have n: "chunk_count ([] :: bytes) = 0" by simp
  from send_runs [OF assms(1-4) l k, of lib cb nd]
  obtain nd' where a: "send env lib [] key cb nd = Some (Inr (), nd')"
    and b: "sent (socks nd' ! length (socks nd)) =
             frame \<lparr>pktid = 0x01, flags = 0x00, data = []\<rparr>
             # frame \<lparr>pktid = 0x07, flags = 0x00, data = le_bytes 4 1\<rparr>
             # frame (key_code_packet key)
             # map (\<lambda>i. frame (upload_packet i (Suc i = chunk_count ([] :: bytes))
                                 (transmitted lib key (slice [] i)))) [0..<chunk_count ([] :: bytes)]
             @ [frame (set_info_packet ((NOT (zlib_crc32 (concat (map (\<lambda>i. transmitted lib key (slice [] i))
                     [0..<chunk_count ([] :: bytes)])) 0)) AND 0xFFFFFFFF) (length ([] :: bytes)))]"
    by blast
  have "sent (socks nd' ! length (socks nd)) =
             [frame \<lparr>pktid = 0x01, flags = 0x00, data = []\<rparr>,
              frame \<lparr>pktid = 0x07, flags = 0x00, data = le_bytes 4 1\<rparr>,
              frame (key_code_packet key),
              frame (set_info_packet 0xFFFFFFFF 0)]"
    unfolding b n using crc by simp
  with a show ?thesis by blast
qed

theorem send_empty_payload_witness:
  "\<forall>lib.
     reachable \<lparr>reachable = True, script_in = [Data [4, 0, 0, 7, 1, 0, 0, 0]], script_out = []\<rparr>
   \<and> SendError \<notin> set (script_out \<lparr>reachable = True, script_in = [Data [4, 0, 0, 7, 1, 0, 0, 0]], script_out = []\<rparr>)
   \<and> script_in \<lparr>reachable = True, script_in = [Data [4, 0, 0, 7, 1, 0, 0, 0]], script_out = []\<rparr> = Data ([4, 0, 0, 7] @ [1, 0, 0, 0]) # []
   \<and> length [1, 0, 0, 0 :: byte] = 4
   \<and> \<not> truthy None
   \<and> (\<exists>nd'. send \<lparr>reachable = True, script_in = [Data [4, 0, 0, 7, 1, 0, 0, 0]], script_out = []\<rparr> lib [] None False (NetDimm_init ''192.168.1.2'' None None False)
                = Some (Inr (), nd')
        \<and> sent (socks nd' ! 0) =
            [frame \<lparr>pktid = 0x01, flags = 0x00, data = []\<rparr>,
             frame \<lparr>pktid = 0x07, flags = 0x00, data = le_bytes 4 1\<rparr>,
             frame \<lparr>pktid = 0x7F, flags = 0x00, data = [0, 0, 0, 0, 0, 0, 0, 0]\<rparr>,
             frame (set_info_packet 0xFFFFFFFF 0)])"
proof
  fix lib :: des_lib
  let ?env = "\<lparr>reachable = True, script_in = [Data [4, 0, 0, 7, 1, 0, 0, 0]], script_out = []\<rparr>"
  let ?nd = "NetDimm_init ''192.168.1.2'' None None False"
  have h1: "reachable ?env" by simp
  have h2: "SendError \<notin> set (script_out ?env)" by simp
  have h3: "script_in ?env = Data ([4, 0, 0, 7] @ [1, 0, 0, 0]) # []" by simp
  have h4: "length [1, 0, 0, 0 :: byte] = 4" by simp
  have h5: "\<not> truthy None" by (simp add: truthy_def)
  then have h5': "\<not> truthy None \<or> length (the None) = 8" by blast
  have z: "replicate 8 (0::byte) = [0, 0, 0, 0, 0, 0, 0, 0]" by (simp add: numeral_eq_Suc)
  from send_empty_payload [OF h1 h2 h3 h4 h5', of lib False ?nd]
  have "\<exists>nd'. send ?env lib [] None False ?nd = Some (Inr (), nd')
        \<and> sent (socks nd' ! 0) =
            [frame \<lparr>pktid = 0x01, flags = 0x00, data = []\<rparr>,
             frame \<lparr>pktid = 0x07, flags = 0x00, data = le_bytes 4 1\<rparr>,
             frame \<lparr>pktid = 0x7F, flags = 0x00, data = [0, 0, 0, 0, 0, 0, 0, 0]\<rparr>,
             frame (set_info_packet 0xFFFFFFFF 0)]"
    by (simp only: h5 if_False z) (simp add: NetDimm_init_def)
  with h1 h2 h3 h4 h5 show
    "reachable ?env
   \<and> SendError \<notin> set (script_out ?env)
   \<and> script_in ?env = Data ([4, 0, 0, 7] @ [1, 0, 0, 0]) # []
   \<and> length [1, 0, 0, 0 :: byte] = 4
   \<and> \<not> truthy None
   \<and> (\<exists>nd'. send ?env lib [] None False ?nd = Some (Inr (), nd')
        \<and> sent (socks nd' ! 0) =
            [frame \<lparr>pktid = 0x01, flags = 0x00, data = []\<rparr>,
             frame \<lparr>pktid = 0x07, flags = 0x00, data = le_bytes 4 1\<rparr>,
             frame \<lparr>pktid = 0x7F, flags = 0x00, data = [0, 0, 0, 0, 0, 0, 0, 0]\<rparr>,
             frame (set_info_packet 0xFFFFFFFF 0)])"
    by (intro conjI)
qed

subsection \<open>Where the arguments are checked\<close>

text \<open>
  An upload whose chunk \<open>m\<close> cannot be encrypted sends the chunks before it and stops
  with the error of the DES library.
\<close>

lemma upload_loop_fail_step:
  assumes "addr < length dat"
    and "encrypt des (take 0x8000 (drop addr dat)) = Inl e"
  shows "upload_loop des cb dat c addr sequence nd =
           (Inl e, if cb then nd\<lparr>progress := progress nd @ [(addr, length dat)]\<rparr> else nd)"
  using assms by (subst upload_loop.simps) (simp add: Let_def)

lemma upload_loop_stops:
  assumes "length dat < 2 ^ 32" "m < chunk_count dat"
    and "\<And>i. i < m \<Longrightarrow> encrypt des (slice dat i) = Inr (ct i)"
    and "encrypt des (slice dat m) = Inl e"
  shows "usable nd h \<Longrightarrow> k \<le> m \<Longrightarrow>
    \<exists>nd'. upload_loop des cb dat c (k * 0x8000) (Suc k) nd = (Inl e, nd')
         \<and> sends nd h (map (\<lambda>i. frame (upload_packet i False (ct i))) [k..<m]) nd'"
proof (induction "m - k" arbitrary: k c nd)
  case 0
  then have km: "k = m" by simp
  have lt: "m * 0x8000 < length dat"
    using assms(2) chunk_count_less [of m dat] by simp
  let ?nd1 = "if cb then nd\<lparr>progress := progress nd @ [(m * 0x8000, length dat)]\<rparr> else nd"
  have s1: "sends nd h [] ?nd1" using 0(2) by (simp add: sends_def)
  have "upload_loop des cb dat c (m * 0x8000) (Suc m) nd = (Inl e, ?nd1)"
    using upload_loop_fail_step [OF lt assms(4)] .
  then show ?case using s1 unfolding km by (simp only: upt_conv_Nil [OF order_refl] list.map) blast
next
  case (Suc j)
  let ?n = "chunk_count dat"
  from Suc have km: "k < m" by simp
  then have kn: "Suc k < ?n" using assms(2) by simp
  then have lt': "Suc k * 0x8000 < length dat"
    using chunk_count_less [of "Suc k" dat] by simp
  then have lt: "k * 0x8000 < length dat" by simp
  let ?nd1 = "if cb then nd\<lparr>progress := progress nd @ [(k * 0x8000, length dat)]\<rparr> else nd"
  have u1: "usable ?nd1 h" using Suc.prems(1) by simp
  have s1: "sends nd h [] ?nd1" using Suc.prems(1) by (simp add: sends_def)
  have len: "length (slice dat k) = 0x8000" using lt' by auto
  have last: "(k * 0x8000 + length (slice dat k) = length dat) = False"
    using lt' by (simp only: len) simp
  have next_addr: "k * 0x8000 + length (slice dat k) = Suc k * 0x8000"
    by (simp only: len) simp
  have bounds: "Suc k < 2 ^ 32" "k * 0x8000 < 2 ^ 32"
    using lt assms(1) by auto
  obtain nd2 where up: "upload (Suc k) (k * 0x8000) (ct k)
       (k * 0x8000 + length (slice dat k) = length dat) ?nd1 = (Inr (), nd2)"
    and s2: "sends ?nd1 h [frame (upload_packet k False (ct k))] nd2"
    using upload_sends [OF u1 bounds, of "ct k" False] unfolding last by auto
  have u2: "usable nd2 h" using sends_usable [OF u1 s2] .
  have j: "j = m - Suc k" using Suc.hyps(2) by simp
  obtain nd' where loop: "upload_loop des cb dat (zlib_crc32 (ct k) c)
        (Suc k * 0x8000) (Suc (Suc k)) nd2 = (Inl e, nd')"
    and s3: "sends nd2 h (map (\<lambda>i. frame (upload_packet i False (ct i))) [Suc k..<m]) nd'"
    using Suc.hyps(1) [OF j u2, of "zlib_crc32 (ct k) c"] km by auto
  have range: "[k..<m] = k # [Suc k..<m]"
    using km by (simp add: upt_rec)
  have "upload_loop des cb dat c (k * 0x8000) (Suc k) nd = (Inl e, nd')"
    unfolding upload_loop_step [OF lt assms(3) [OF km] up] next_addr
    using loop .
  moreover have "sends nd h (map (\<lambda>i. frame (upload_packet i False (ct i))) [k..<m]) nd'"
    using sends_trans [OF sends_trans [OF s1 s2] s3] by (simp add: range)
  ultimately show ?case by blast
qed

lemma last_slice_bad:
  assumes "\<not> 8 dvd length dat"
  shows "0 < chunk_count dat \<and> length (slice dat (chunk_count dat - 1)) mod 8 \<noteq> 0"
proof -
  define n where "n = chunk_count dat"
  have pos: "0 < length dat" using assms by (cases "length dat = 0") simp_all
  then have n0: "0 < n" using chunk_count_less [of 0 dat] by (simp add: n_def)
  then obtain m where m: "n = Suc m" by (cases n) simp_all
  have mn: "m < chunk_count dat" using m by (simp add: n_def)
  have sm: "Suc m = chunk_count dat" using m by (simp add: n_def)
  have l: "length (slice dat m) = length dat - m * 0x8000"
    using slice_length [OF mn] by (simp only: sm simp_thms if_True)
  have lt: "m * 0x8000 < length dat" using mn chunk_count_less [of m dat] by simp
  define x where "x = m * 0x8000"
  have x: "(8::nat) dvd x" by (simp add: x_def)
  have "\<not> 8 dvd length dat - x"
  proof
    assume "8 dvd length dat - x"
    then have "8 dvd (length dat - x) + x" using x by (rule dvd_add)
    moreover have "(length dat - x) + x = length dat" using lt by (simp add: x_def)
    ultimately show False using assms by simp
  qed
  then have "(length dat - m * 0x8000) mod 8 \<noteq> 0"
    by (simp only: x_def dvd_eq_mod_eq_0 simp_thms)
  then have "length (slice dat m) mod 8 \<noteq> 0"
    by (simp only: l simp_thms)
  moreover have "chunk_count dat - 1 = m" using sm [symmetric] by (simp only: diff_Suc_1)
  ultimately show ?thesis using n0 by (simp only: n_def) simp
qed

lemma upload_file_stops:
  assumes "usable nd h" "length dat < 2 ^ 32"
    and "length key = 8" "\<not> 8 dvd length dat"
  shows "\<exists>nd'. upload_file lib dat (Some key) cb nd = (Inl ValueError, nd') \<and>
           sends nd h
             (map (\<lambda>i. frame (upload_packet i False
                                 (rev (lib (rev key) MODE_ECB (rev (slice dat i))))))
                [0..<chunk_count dat - 1]) nd'"
proof -
  let ?ct = "\<lambda>i. rev (lib (rev key) MODE_ECB (rev (slice dat i)))"
  let ?des = "Some (lib (rev key) MODE_ECB)"
  define m where "m = chunk_count dat - 1"
  have t: "truthy (Some key)" using assms(3) by (auto simp: truthy_def)
  have new: "(if truthy (Some key)
            then (case DES_new lib (rev (the (Some key))) MODE_ECB of
                    Inl e \<Rightarrow> Inl e
                  | Inr engine \<Rightarrow> Inr (Some engine))
            else Inr None) = Inr ?des"
    using assms(3) t by (simp add: DES_new_def)
  have mn: "m < chunk_count dat" and badlen: "length (slice dat m) mod 8 \<noteq> 0"
    using last_slice_bad [OF assms(4)] unfolding m_def by simp_all
  have enc: "encrypt ?des (slice dat i) = Inr (?ct i)" if "i < m" for i
  proof -
    have "i < chunk_count dat" "Suc i \<noteq> chunk_count dat" using that mn unfolding m_def by simp_all
    then have "length (slice dat i) = 0x8000"
      using slice_length [of i dat] by (simp only: simp_thms if_False)
    then show ?thesis by (simp add: encrypt_def DES_encrypt_def)
  qed
  have bad: "encrypt ?des (slice dat m) = Inl ValueError"
    using badlen by (simp add: encrypt_def DES_encrypt_def)
  obtain nd' where loop: "upload_loop ?des cb dat 0 0 1 nd = (Inl ValueError, nd')"
    and s1: "sends nd h (map (\<lambda>i. frame (upload_packet i False (?ct i))) [0..<m]) nd'"
    using upload_loop_stops [OF assms(2) mn enc bad assms(1), of 0 cb 0] by auto
  have "upload_file lib dat (Some key) cb nd = (Inl ValueError, nd')"
    unfolding upload_file_def new
    by (simp only: sum.case loop prod.case)
  then show ?thesis using s1 unfolding m_def by blast
qed


lemma send_bad_key:
  assumes "reachable env" "SendError \<notin> set (script_out env)"
    and "script_in env = Data ([4, 0, 0, 7] @ mode) # rest" "length mode = 4"
    and "key \<noteq> []" "length key \<noteq> 8"
  shows "\<exists>nd'. send env lib dat (Some key) cb nd =
               Some (Inl (NetDimmException ''Key code must by 8 bytes in length''), nd')
         \<and> sent (socks nd' ! length (socks nd)) =
             [frame \<lparr>pktid = 0x01, flags = 0x00, data = []\<rparr>,
              frame \<lparr>pktid = 0x07, flags = 0x00, data = le_bytes 4 1\<rparr>]
         \<and> closes (socks nd' ! length (socks nd)) = 1 \<and> sock nd' = None"
proof -
  let ?h = "length (socks nd)"
  let ?e = "NetDimmException ''Key code must by 8 bytes in length''"
  let ?body = "\<lambda>nd1.
          (let nd2 = (if cb then nd1\<lparr>progress := progress nd1 @ [(0, length dat)]\<rparr> else nd1)
           in case set_host_mode 1 nd2 of
                None \<Rightarrow> None
              | Some (Inl e, nd3) \<Rightarrow> Some (Inl e, nd3)
              | Some (Inr _, nd3) \<Rightarrow>
                  (case (if truthy (Some key) then set_key_code (the (Some key)) nd3
                         else set_key_code (replicate 8 0) nd3) of
                     (Inl e, nd4) \<Rightarrow> Some (Inl e, nd4)
                   | (Inr _, nd4) \<Rightarrow> Some (upload_file lib dat (Some key) cb nd4)))"
  have t: "truthy (Some key)" using assms(5) by (simp add: truthy_def)
  have body: "\<exists>nd3. ?body nd1 = Some (Inl ?e, nd3) \<and>
       sends nd1 ?h [frame \<lparr>pktid = 0x07, flags = 0x00, data = le_bytes 4 1\<rparr>] nd3"
    if u1: "usable nd1 ?h" and in1: "inbound (socks nd1 ! ?h) = script_in env" for nd1
  proof -
    let ?nd2 = "if cb then nd1\<lparr>progress := progress nd1 @ [(0, length dat)]\<rparr> else nd1"
    have u2: "usable ?nd2 ?h" using u1 by simp
    have s12: "sends nd1 ?h [] ?nd2" using u1 by (simp add: sends_def)
    have in2: "inbound (socks ?nd2 ! ?h) = Data ([4, 0, 0, 7] @ mode) # rest"
      using in1 assms(3) by simp
    obtain nd3 where hm: "set_host_mode 1 ?nd2 = Some (Inr (), nd3)"
      and s23: "sends ?nd2 ?h [frame \<lparr>pktid = 0x07, flags = 0x00, data = le_bytes 4 1\<rparr>] nd3"
      using set_host_mode_sends [OF u2 in2 assms(4)] by blast
    have kc: "(if truthy (Some key) then set_key_code (the (Some key)) nd3
                         else set_key_code (replicate 8 0) nd3) = (Inl ?e, nd3)"
      using t assms(6) by (simp add: set_key_code_def)
    have "?body nd1 = Some (Inl ?e, nd3)"
      by (simp only: Let_def hm option.case prod.case sum.case kc)
    moreover have "sends nd1 ?h [frame \<lparr>pktid = 0x07, flags = 0x00, data = le_bytes 4 1\<rparr>] nd3"
      using sends_trans [OF s12 s23] by simp
    ultimately show ?thesis by blast
  qed
  from connection_runs [where body = ?body and r = "Inl ?e", OF assms(1,2) body]
  show ?thesis
    unfolding send_def by blast
qed

lemma send_bad_length:
  assumes "reachable env" "SendError \<notin> set (script_out env)"
    and "script_in env = Data ([4, 0, 0, 7] @ mode) # rest" "length mode = 4"
    and "length key = 8" "\<not> 8 dvd length dat" "length dat < 2 ^ 32"
  shows "\<exists>nd'. send env lib dat (Some key) cb nd = Some (Inl ValueError, nd')
         \<and> sent (socks nd' ! length (socks nd)) =
             frame \<lparr>pktid = 0x01, flags = 0x00, data = []\<rparr>
             # frame \<lparr>pktid = 0x07, flags = 0x00, data = le_bytes 4 1\<rparr>
             # frame \<lparr>pktid = 0x7F, flags = 0x00, data = key\<rparr>
             # map (\<lambda>i. frame (upload_packet i False
                                 (rev (lib (rev key) MODE_ECB (rev (slice dat i))))))
                 [0..<chunk_count dat - 1]
         \<and> closes (socks nd' ! length (socks nd)) = 1 \<and> sock nd' = None"
proof -
  let ?h = "length (socks nd)"
  let ?up = "map (\<lambda>i. frame (upload_packet i False
                                 (rev (lib (rev key) MODE_ECB (rev (slice dat i))))))
                 [0..<chunk_count dat - 1]"
  let ?body = "\<lambda>nd1.
          (let nd2 = (if cb then nd1\<lparr>progress := progress nd1 @ [(0, length dat)]\<rparr> else nd1)
           in case set_host_mode 1 nd2 of
                None \<Rightarrow> None
              | Some (Inl e, nd3) \<Rightarrow> Some (Inl e, nd3)
              | Some (Inr _, nd3) \<Rightarrow>
                  (case (if truthy (Some key) then set_key_code (the (Some key)) nd3
                         else set_key_code (replicate 8 0) nd3) of
                     (Inl e, nd4) \<Rightarrow> Some (Inl e, nd4)
                   | (Inr _, nd4) \<Rightarrow> Some (upload_file lib dat (Some key) cb nd4)))"
  have t: "truthy (Some key)" using assms(5) by (auto simp: truthy_def)
  have body: "\<exists>nd5. ?body nd1 = Some (Inl ValueError, nd5) \<and>
       sends nd1 ?h (frame \<lparr>pktid = 0x07, flags = 0x00, data = le_bytes 4 1\<rparr>
             # frame \<lparr>pktid = 0x7F, flags = 0x00, data = key\<rparr> # ?up) nd5"
    if u1: "usable nd1 ?h" and in1: "inbound (socks nd1 ! ?h) = script_in env" for nd1
  proof -
    let ?nd2 = "if cb then nd1\<lparr>progress := progress nd1 @ [(0, length dat)]\<rparr> else nd1"
    have u2: "usable ?nd2 ?h" using u1 by simp
    have s12: "sends nd1 ?h [] ?nd2" using u1 by (simp add: sends_def)
    have in2: "inbound (socks ?nd2 ! ?h) = Data ([4, 0, 0, 7] @ mode) # rest"
      using in1 assms(3) by simp
    obtain nd3 where hm: "set_host_mode 1 ?nd2 = Some (Inr (), nd3)"
      and s23: "sends ?nd2 ?h [frame \<lparr>pktid = 0x07, flags = 0x00, data = le_bytes 4 1\<rparr>] nd3"
      using set_host_mode_sends [OF u2 in2 assms(4)] by blast
    have u3: "usable nd3 ?h" using sends_usable [OF u2 s23] .
    obtain nd4 where kc: "set_key_code key nd3 = (Inr (), nd4)"
      and s34: "sends nd3 ?h [frame \<lparr>pktid = 0x7F, flags = 0x00, data = key\<rparr>] nd4"
      using set_key_code_sends [OF u3 assms(5)] by blast
    have kc': "(if truthy (Some key) then set_key_code (the (Some key)) nd3
                         else set_key_code (replicate 8 0) nd3) = (Inr (), nd4)"
      using kc t by simp
    have u4: "usable nd4 ?h" using sends_usable [OF u3 s34] .
    obtain nd5 where uf: "upload_file lib dat (Some key) cb nd4 = (Inl ValueError, nd5)"
      and s45: "sends nd4 ?h ?up nd5"
      using upload_file_stops [OF u4 assms(7,5,6)] by blast
    have "?body nd1 = Some (Inl ValueError, nd5)"
      by (simp only: Let_def hm option.case prod.case sum.case kc' uf)
    moreover have "sends nd1 ?h (frame \<lparr>pktid = 0x07, flags = 0x00, data = le_bytes 4 1\<rparr>
             # frame \<lparr>pktid = 0x7F, flags = 0x00, data = key\<rparr> # ?up) nd5"
      using sends_trans [OF sends_trans [OF sends_trans [OF s12 s23] s34] s45] by simp
    ultimately show ?thesis by blast
  qed
  from connection_runs [where body = ?body and r = "Inl ValueError", OF assms(1,2) body]
  show ?thesis
    unfolding send_def by blast
qed


text \<open>
  C7. \<open>send\<close> does not check its arguments before it opens the connection. The length
  of a non-empty key is checked by \<open>__set_key_code\<close>, once the connection is open and the
  startup no-op and the host-mode request have been sent: a key that is not 8 bytes long
  raises \<open>NetDimmException\<close> there, nothing more is sent and the socket is closed. The
  driver has no check of the payload's length: with a key of 8 bytes and a payload (below
  4 GiB) that is not a multiple of 8 bytes long, the key code and the chunks before the
  last are sent, then the DES library raises \<open>ValueError\<close> on the last chunk; set-info
  is not sent and the socket is closed.
\<close>

theorem send_rejects_arguments_after_io:
  assumes "reachable env" "SendError \<notin> set (script_out env)"
    and "script_in env = Data ([4, 0, 0, 7] @ mode) # rest" "length mode = 4"
  shows "(key \<noteq> [] \<and> length key \<noteq> 8 \<longrightarrow>
           (\<exists>nd'. send env lib dat (Some key) cb nd =
                     Some (Inl (NetDimmException ''Key code must by 8 bytes in length''), nd')
               \<and> sent (socks nd' ! length (socks nd)) =
                   [frame \<lparr>pktid = 0x01, flags = 0x00, data = []\<rparr>,
                    frame \<lparr>pktid = 0x07, flags = 0x00, data = le_bytes 4 1\<rparr>]
               \<and> closes (socks nd' ! length (socks nd)) = 1 \<and> sock nd' = None))
       \<and> (length key = 8 \<and> \<not> 8 dvd length dat \<and> length dat < 2 ^ 32 \<longrightarrow>
           (\<exists>nd'. send env lib dat (Some key) cb nd = Some (Inl ValueError, nd')
               \<and> sent (socks nd' ! length (socks nd)) =
                   frame \<lparr>pktid = 0x01, flags = 0x00, data = []\<rparr>
                   # frame \<lparr>pktid = 0x07, flags = 0x00, data = le_bytes 4 1\<rparr>
                   # frame \<lparr>pktid = 0x7F, flags = 0x00, data = key\<rparr>
                   # map (\<lambda>i. frame (upload_packet i False
                                       (rev (lib (rev key) MODE_ECB (rev (slice dat i))))))
                       [0..<chunk_count dat - 1]
               \<and> closes (socks nd' ! length (socks nd)) = 1 \<and> sock nd' = None))"
proof (intro conjI impI)
  assume "key \<noteq> [] \<and> length key \<noteq> 8"
  then have "key \<noteq> []" "length key \<noteq> 8" by simp_all
  then show "\<exists>nd'. send env lib dat (Some key) cb nd =
                     Some (Inl (NetDimmException ''Key code must by 8 bytes in length''), nd')
               \<and> sent (socks nd' ! length (socks nd)) =
                   [frame \<lparr>pktid = 0x01, flags = 0x00, data = []\<rparr>,
                    frame \<lparr>pktid = 0x07, flags = 0x00, data = le_bytes 4 1\<rparr>]
               \<and> closes (socks nd' ! length (socks nd)) = 1 \<and> sock nd' = None"
    by (rule send_bad_key [OF assms])
next
  assume "length key = 8 \<and> \<not> 8 dvd length dat \<and> length dat < 2 ^ 32"
  then have "length key = 8" "\<not> 8 dvd length dat" "length dat < 2 ^ 32" by simp_all
  then show "\<exists>nd'. send env lib dat (Some key) cb nd = Some (Inl ValueError, nd')
               \<and> sent (socks nd' ! length (socks nd)) =
                   frame \<lparr>pktid = 0x01, flags = 0x00, data = []\<rparr>
                   # frame \<lparr>pktid = 0x07, flags = 0x00, data = le_bytes 4 1\<rparr>
                   # frame \<lparr>pktid = 0x7F, flags = 0x00, data = key\<rparr>
                   # map (\<lambda>i. frame (upload_packet i False
                                       (rev (lib (rev key) MODE_ECB (rev (slice dat i))))))
                       [0..<chunk_count dat - 1]
               \<and> closes (socks nd' ! length (socks nd)) = 1 \<and> sock nd' = None"
    by (rule send_bad_length [OF assms])
qed

theorem send_rejects_arguments_after_io_witness:
  "\<forall>lib.
     reachable \<lparr>reachable = True, script_in = [Data [4, 0, 0, 7, 1, 0, 0, 0]], script_out = []\<rparr>
   \<and> SendError \<notin> set (script_out \<lparr>reachable = True, script_in = [Data [4, 0, 0, 7, 1, 0, 0, 0]], script_out = []\<rparr>)
   \<and> script_in \<lparr>reachable = True, script_in = [Data [4, 0, 0, 7, 1, 0, 0, 0]], script_out = []\<rparr> = Data ([4, 0, 0, 7] @ [1, 0, 0, 0]) # []
   \<and> length [1, 0, 0, 0 :: byte] = 4
   \<and> [1, 2, 3 :: byte] \<noteq> [] \<and> length [1, 2, 3 :: byte] \<noteq> 8
   \<and> (\<exists>nd'. send \<lparr>reachable = True, script_in = [Data [4, 0, 0, 7, 1, 0, 0, 0]], script_out = []\<rparr> lib [] (Some [1, 2, 3]) False (NetDimm_init ''192.168.1.2'' None None False)
                = Some (Inl (NetDimmException ''Key code must by 8 bytes in length''), nd')
        \<and> sent (socks nd' ! 0) =
            [frame \<lparr>pktid = 0x01, flags = 0x00, data = []\<rparr>,
             frame \<lparr>pktid = 0x07, flags = 0x00, data = le_bytes 4 1\<rparr>]
        \<and> closes (socks nd' ! 0) = 1 \<and> sock nd' = None)
   \<and> length [1, 2, 3, 4, 5, 6, 7, 8 :: byte] = 8
   \<and> \<not> 8 dvd length (replicate 0x8000 (0::byte) @ [1, 2, 3])
   \<and> length (replicate 0x8000 (0::byte) @ [1, 2, 3]) < 2 ^ 32
   \<and> (\<exists>nd'. send \<lparr>reachable = True, script_in = [Data [4, 0, 0, 7, 1, 0, 0, 0]], script_out = []\<rparr> lib (replicate 0x8000 0 @ [1, 2, 3]) (Some [1, 2, 3, 4, 5, 6, 7, 8]) False
                (NetDimm_init ''192.168.1.2'' None None False)
                = Some (Inl ValueError, nd')
        \<and> sent (socks nd' ! 0) =
            [frame \<lparr>pktid = 0x01, flags = 0x00, data = []\<rparr>,
             frame \<lparr>pktid = 0x07, flags = 0x00, data = le_bytes 4 1\<rparr>,
             frame \<lparr>pktid = 0x7F, flags = 0x00, data = [1, 2, 3, 4, 5, 6, 7, 8]\<rparr>,
             frame (upload_packet 0 False
               (rev (lib [8, 7, 6, 5, 4, 3, 2, 1] MODE_ECB (replicate 0x8000 0))))]
        \<and> closes (socks nd' ! 0) = 1 \<and> sock nd' = None)"
proof
  fix lib :: des_lib
  let ?env = "\<lparr>reachable = True, script_in = [Data [4, 0, 0, 7, 1, 0, 0, 0]], script_out = []\<rparr>"
  let ?nd = "NetDimm_init ''192.168.1.2'' None None False"
  let ?dat = "replicate 0x8000 (0::byte) @ [1, 2, 3]"
  let ?K = "[1, 2, 3, 4, 5, 6, 7, 8 :: byte]"
  have h1: "reachable ?env" by simp
  have h2: "SendError \<notin> set (script_out ?env)" by simp
  have h3: "script_in ?env = Data ([4, 0, 0, 7] @ [1, 0, 0, 0]) # []" by simp
  have h4: "length [1, 0, 0, 0 :: byte] = 4" by simp
  have k1: "[1, 2, 3 :: byte] \<noteq> []" and k2: "length [1, 2, 3 :: byte] \<noteq> 8" by simp_all
  have d1: "length ?K = 8" by simp
  have d2: "\<not> 8 dvd length ?dat" by simp
  have d3: "length ?dat < 2 ^ 32" by simp
  have n: "chunk_count ?dat - 1 = Suc 0" by simp
  have r: "[0..<Suc 0] = [0]" by simp
  have a: "\<exists>nd'. send ?env lib [] (Some [1, 2, 3]) False ?nd
                = Some (Inl (NetDimmException ''Key code must by 8 bytes in length''), nd')
        \<and> sent (socks nd' ! 0) =
            [frame \<lparr>pktid = 0x01, flags = 0x00, data = []\<rparr>,
             frame \<lparr>pktid = 0x07, flags = 0x00, data = le_bytes 4 1\<rparr>]
        \<and> closes (socks nd' ! 0) = 1 \<and> sock nd' = None"
    using send_rejects_arguments_after_io [where key = "[1, 2, 3]" and lib = lib and dat = "[]"
          and cb = False and nd = ?nd, OF h1 h2 h3 h4]
      k1 k2 by (simp add: NetDimm_init_def)
  have b: "\<exists>nd'. send ?env lib ?dat (Some ?K) False ?nd = Some (Inl ValueError, nd')
        \<and> sent (socks nd' ! 0) =
            [frame \<lparr>pktid = 0x01, flags = 0x00, data = []\<rparr>,
             frame \<lparr>pktid = 0x07, flags = 0x00, data = le_bytes 4 1\<rparr>,
             frame \<lparr>pktid = 0x7F, flags = 0x00, data = ?K\<rparr>,
             frame (upload_packet 0 False
               (rev (lib [8, 7, 6, 5, 4, 3, 2, 1] MODE_ECB (replicate 0x8000 0))))]
        \<and> closes (socks nd' ! 0) = 1 \<and> sock nd' = None"
    using send_rejects_arguments_after_io [where key = ?K and lib = lib and dat = ?dat
          and cb = False and nd = ?nd, OF h1 h2 h3 h4]
      d1 d2 d3 unfolding n r by (simp add: NetDimm_init_def)
  from h1 h2 h3 h4 k1 k2 a d1 d2 d3 b show
    "reachable ?env
   \<and> SendError \<notin> set (script_out ?env)
   \<and> script_in ?env = Data ([4, 0, 0, 7] @ [1, 0, 0, 0]) # []
   \<and> length [1, 0, 0, 0 :: byte] = 4
   \<and> [1, 2, 3 :: byte] \<noteq> [] \<and> length [1, 2, 3 :: byte] \<noteq> 8
   \<and> (\<exists>nd'. send ?env lib [] (Some [1, 2, 3]) False ?nd
                = Some (Inl (NetDimmException ''Key code must by 8 bytes in length''), nd')
        \<and> sent (socks nd' ! 0) =
            [frame \<lparr>pktid = 0x01, flags = 0x00, data = []\<rparr>,
             frame \<lparr>pktid = 0x07, flags = 0x00, data = le_bytes 4 1\<rparr>]
        \<and> closes (socks nd' ! 0) = 1 \<and> sock nd' = None)
   \<and> length ?K = 8
   \<and> \<not> 8 dvd length ?dat
   \<and> length ?dat < 2 ^ 32
   \<and> (\<exists>nd'. send ?env lib ?dat (Some ?K) False ?nd = Some (Inl ValueError, nd')
        \<and> sent (socks nd' ! 0) =
            [frame \<lparr>pktid = 0x01, flags = 0x00, data = []\<rparr>,
             frame \<lparr>pktid = 0x07, flags = 0x00, data = le_bytes 4 1\<rparr>,
             frame \<lparr>pktid = 0x7F, flags = 0x00, data = ?K\<rparr>,
             frame (upload_packet 0 False
               (rev (lib [8, 7, 6, 5, 4, 3, 2, 1] MODE_ECB (replicate 0x8000 0))))]
        \<and> closes (socks nd' ! 0) = 1 \<and> sock nd' = None)"
    by (intro conjI)
qed

text \<open>
  A call of \<open>send\<close> with the key \<open>01 02 03\<close>, on a device that answers the host-mode
  request: the error is raised after the connection has been opened and two packets have
  been sent on it.
\<close>

theorem send_bad_key_counterexample:
  "\<forall>lib. \<exists>nd'.
     send \<lparr>reachable = True, script_in = [Data [4, 0, 0, 7, 1, 0, 0, 0]], script_out = []\<rparr> lib [] (Some [1, 2, 3]) False (NetDimm_init ''192.168.1.2'' None None False)
       = Some (Inl (NetDimmException ''Key code must by 8 bytes in length''), nd')
   \<and> sent (socks nd' ! 0) = [[0, 0, 0, 1], [4, 0, 0, 7, 1, 0, 0, 0]]
   \<and> closes (socks nd' ! 0) = 1"
proof
  fix lib :: des_lib
  let ?env = "\<lparr>reachable = True, script_in = [Data [4, 0, 0, 7, 1, 0, 0, 0]], script_out = []\<rparr>"
  let ?nd = "NetDimm_init ''192.168.1.2'' None None False"
  have h1: "reachable ?env" by simp
  have h2: "SendError \<notin> set (script_out ?env)" by simp
  have h3: "script_in ?env = Data ([4, 0, 0, 7] @ [1, 0, 0, 0]) # []" by simp
  have h4: "length [1, 0, 0, 0 :: byte] = 4" by simp
  have h5: "[1, 2, 3 :: byte] \<noteq> []" "length [1, 2, 3 :: byte] \<noteq> 8" by simp_all
  have f1: "frame \<lparr>pktid = 0x01, flags = 0x00, data = []\<rparr> = [0, 0, 0, 1]"
    by (simp add: header_word_def le_bytes_def upt_rec)
  have f2: "frame \<lparr>pktid = 0x07, flags = 0x00, data = le_bytes 4 1\<rparr> = [4, 0, 0, 7, 1, 0, 0, 0]"
    by (simp add: header_word_def le_bytes_def upt_rec)
  from send_bad_key [where lib = lib and dat = "[]" and cb = False and nd = ?nd, OF h1 h2 h3 h4 h5]
  obtain nd' where "send ?env lib [] (Some [1, 2, 3]) False ?nd
       = Some (Inl (NetDimmException ''Key code must by 8 bytes in length''), nd')"
    and "sent (socks nd' ! length (socks ?nd)) =
             [frame \<lparr>pktid = 0x01, flags = 0x00, data = []\<rparr>,
              frame \<lparr>pktid = 0x07, flags = 0x00, data = le_bytes 4 1\<rparr>]"
    and "closes (socks nd' ! length (socks ?nd)) = 1"
    by blast
  then have "send ?env lib [] (Some [1, 2, 3]) False ?nd
       = Some (Inl (NetDimmException ''Key code must by 8 bytes in length''), nd')
   \<and> sent (socks nd' ! 0) = [[0, 0, 0, 1], [4, 0, 0, 7, 1, 0, 0, 0]]
   \<and> closes (socks nd' ! 0) = 1"
    unfolding f1 f2 by (simp add: NetDimm_init_def)
  then show "\<exists>nd'. send ?env lib [] (Some [1, 2, 3]) False ?nd
       = Some (Inl (NetDimmException ''Key code must by 8 bytes in length''), nd')
   \<and> sent (socks nd' ! 0) = [[0, 0, 0, 1], [4, 0, 0, 7, 1, 0, 0, 0]]
   \<and> closes (socks nd' ! 0) = 1"
    by (rule exI)
qed

subsection \<open>Reboot and the boot-ID patch\<close>

lemma host_poke4_sends:
  assumes "usable nd h" "0 \<le> addr" "addr < 2 ^ 32" "0 \<le> v" "v < 2 ^ 32"
  shows "\<exists>nd'. host_poke4 addr v nd = (Inr (), nd') \<and> sends nd h [frame (poke_packet addr v)] nd'"
proof -
  have "pack_III addr 0 v = Inr (le_bytes 4 addr @ le_bytes 4 0 @ le_bytes 4 v)"
    using assms(2-5) by (simp add: pack_III_def pack_I_def)
  then have "host_poke4 addr v nd = send_packet (poke_packet addr v) nd"
    by (simp only: host_poke4_def sum.case)
  moreover from assms(1) have "sock nd = Some h" "h < length (socks nd)"
      "SendError \<notin> set (outbound (socks nd ! h))" by simp_all
  ultimately show ?thesis
    using send_packet_sends [of nd h] by metis
qed

lemma restart_sends:
  assumes "usable nd h"
  shows "\<exists>nd'. restart nd = (Inr (), nd')
         \<and> sends nd h [frame \<lparr>pktid = 0x0A, flags = 0x00, data = []\<rparr>] nd'"
proof -
  from assms have "sock nd = Some h" "h < length (socks nd)"
      "SendError \<notin> set (outbound (socks nd ! h))" by simp_all
  then show ?thesis
    unfolding restart_def using send_packet_sends [of nd h] by metis
qed

lemma set_time_limit_sends:
  assumes "usable nd h" "0 \<le> minutes" "minutes < 2 ^ 32"
  shows "\<exists>nd'. set_time_limit minutes nd = (Inr (), nd')
         \<and> sends nd h [frame \<lparr>pktid = 0x17, flags = 0x00, data = le_bytes 4 minutes\<rparr>] nd'"
proof -
  have "pack_I minutes = Inr (le_bytes 4 minutes)"
    using assms(2,3) by (simp add: pack_I_def)
  then have "set_time_limit minutes nd =
      send_packet \<lparr>pktid = 0x17, flags = 0x00, data = le_bytes 4 minutes\<rparr> nd"
    by (simp only: set_time_limit_def sum.case)
  moreover from assms(1) have "sock nd = Some h" "h < length (socks nd)"
      "SendError \<notin> set (outbound (socks nd ! h))" by simp_all
  ultimately show ?thesis
    using send_packet_sends [of nd h] by metis
qed

lemma four_pokes:
  assumes "usable nd h" "0 \<le> a" "a + 12 < 2 ^ 32"
  shows "\<exists>nd'. (case host_poke4 (a + 0) 0x4e800020 nd of
                   (Inl e, nd1) \<Rightarrow> (Inl e, nd1)
                 | (Inr _, nd1) \<Rightarrow>
                     (case host_poke4 (a + 4) 0x38600000 nd1 of
                        (Inl e, nd2) \<Rightarrow> (Inl e, nd2)
                      | (Inr _, nd2) \<Rightarrow>
                          (case host_poke4 (a + 8) 0x4e800020 nd2 of
                             (Inl e, nd3) \<Rightarrow> (Inl e, nd3)
                           | (Inr _, nd3) \<Rightarrow> host_poke4 (a + 12) 0x60000000 nd3))) = (Inr (), nd')
         \<and> sends nd h [frame (poke_packet (a + 0) 0x4E800020),
                        frame (poke_packet (a + 4) 0x38600000),
                        frame (poke_packet (a + 8) 0x4E800020),
                        frame (poke_packet (a + 12) 0x60000000)] nd'"
proof -
  have b0: "0 \<le> a + 0" "a + 0 < 2 ^ 32" and b4: "0 \<le> a + 4" "a + 4 < 2 ^ 32"
    and b8: "0 \<le> a + 8" "a + 8 < 2 ^ 32" and b12: "0 \<le> a + 12" "a + 12 < 2 ^ 32"
    using assms(2,3) by simp_all
  have v: "(0::int) \<le> 0x4e800020" "(0x4e800020::int) < 2 ^ 32"
      "(0::int) \<le> 0x38600000" "(0x38600000::int) < 2 ^ 32"
      "(0::int) \<le> 0x60000000" "(0x60000000::int) < 2 ^ 32" by simp_all
  obtain nd1 where p1: "host_poke4 (a + 0) 0x4e800020 nd = (Inr (), nd1)"
    and s1: "sends nd h [frame (poke_packet (a + 0) 0x4E800020)] nd1"
    using host_poke4_sends [OF assms(1) b0 v(1,2)] by blast
  have u1: "usable nd1 h" using sends_usable [OF assms(1) s1] .
  obtain nd2 where p2: "host_poke4 (a + 4) 0x38600000 nd1 = (Inr (), nd2)"
    and s2: "sends nd1 h [frame (poke_packet (a + 4) 0x38600000)] nd2"
    using host_poke4_sends [OF u1 b4 v(3,4)] by blast
  have u2: "usable nd2 h" using sends_usable [OF u1 s2] .
  obtain nd3 where p3: "host_poke4 (a + 8) 0x4e800020 nd2 = (Inr (), nd3)"
    and s3: "sends nd2 h [frame (poke_packet (a + 8) 0x4E800020)] nd3"
    using host_poke4_sends [OF u2 b8 v(1,2)] by blast
  have u3: "usable nd3 h" using sends_usable [OF u2 s3] .
  obtain nd4 where p4: "host_poke4 (a + 12) 0x60000000 nd3 = (Inr (), nd4)"
    and s4: "sends nd3 h [frame (poke_packet (a + 12) 0x60000000)] nd4"
    using host_poke4_sends [OF u3 b12 v(5,6)] by blast
  have "sends nd h ((([frame (poke_packet (a + 0) 0x4E800020)] @
                        [frame (poke_packet (a + 4) 0x38600000)]) @
                        [frame (poke_packet (a + 8) 0x4E800020)]) @
                        [frame (poke_packet (a + 12) 0x60000000)]) nd4"
    using sends_trans [OF sends_trans [OF sends_trans [OF s1 s2] s3] s4] .
  then have "sends nd h [frame (poke_packet (a + 0) 0x4E800020),
                        frame (poke_packet (a + 4) 0x38600000),
                        frame (poke_packet (a + 8) 0x4E800020),
                        frame (poke_packet (a + 12) 0x60000000)] nd4"
    by (simp only: append.simps)
  moreover have "(case host_poke4 (a + 0) 0x4e800020 nd of
                   (Inl e, nd1) \<Rightarrow> (Inl e, nd1)
                 | (Inr _, nd1) \<Rightarrow>
                     (case host_poke4 (a + 4) 0x38600000 nd1 of
                        (Inl e, nd2) \<Rightarrow> (Inl e, nd2)
                      | (Inr _, nd2) \<Rightarrow>
                          (case host_poke4 (a + 8) 0x4e800020 nd2 of
                             (Inl e, nd3) \<Rightarrow> (Inl e, nd3)
                           | (Inr _, nd3) \<Rightarrow> host_poke4 (a + 12) 0x60000000 nd3))) = (Inr (), nd4)"
    by (simp only: p1 p2 p3 p4 prod.case sum.case)
  ultimately show ?thesis by blast
qed

lemma patch_boot_id_check_sends:
  assumes "usable nd h"
  shows "\<exists>nd'. patch_boot_id_check nd = (Inr (), nd') \<and>
           sends nd h
             (map (\<lambda>(a, v). frame (poke_packet a v))
                (if version nd = TARGET_VERSION_3_01
                 then [(0x8000DC5C, 0x4800001C)]
                 else if version nd = TARGET_VERSION_1_07
                 then [(0x8000D8A0 + 0, 0x4E800020), (0x8000D8A0 + 4, 0x38600000),
                       (0x8000D8A0 + 8, 0x4E800020), (0x8000D8A0 + 12, 0x60000000)]
                 else if version nd = TARGET_VERSION_2_03 \<or> version nd = TARGET_VERSION_2_15
                 then [(0x8000CC6C + 0, 0x4E800020), (0x8000CC6C + 4, 0x38600000),
                       (0x8000CC6C + 8, 0x4E800020), (0x8000CC6C + 12, 0x60000000)]
                 else [])) nd'"
proof (cases "version nd")
  case TARGET_VERSION_UNKNOWN
  then show ?thesis
    using sends_refl [OF assms] by (simp add: patch_boot_id_check_def patch_addr_def)
next
  case TARGET_VERSION_4_01
  then show ?thesis
    using sends_refl [OF assms] by (simp add: patch_boot_id_check_def patch_addr_def)
next
  case TARGET_VERSION_4_02
  then show ?thesis
    using sends_refl [OF assms] by (simp add: patch_boot_id_check_def patch_addr_def)
next
  case TARGET_VERSION_3_01
  have "patch_boot_id_check nd = host_poke4 (0x8000dc5c + 0) 0x4800001C nd"
    using TARGET_VERSION_3_01 by (simp add: patch_boot_id_check_def patch_addr_def)
  moreover have "\<exists>nd'. host_poke4 (0x8000dc5c + 0) 0x4800001C nd = (Inr (), nd')
      \<and> sends nd h [frame (poke_packet (0x8000dc5c + 0) 0x4800001C)] nd'"
    by (rule host_poke4_sends [OF assms]) simp_all
  ultimately show ?thesis
    using TARGET_VERSION_3_01 by simp
next
  case TARGET_VERSION_1_07
  have "patch_boot_id_check nd =
      (case host_poke4 (0x8000d8a0 + 0) 0x4e800020 nd of
                   (Inl e, nd1) \<Rightarrow> (Inl e, nd1)
                 | (Inr _, nd1) \<Rightarrow>
                     (case host_poke4 (0x8000d8a0 + 4) 0x38600000 nd1 of
                        (Inl e, nd2) \<Rightarrow> (Inl e, nd2)
                      | (Inr _, nd2) \<Rightarrow>
                          (case host_poke4 (0x8000d8a0 + 8) 0x4e800020 nd2 of
                             (Inl e, nd3) \<Rightarrow> (Inl e, nd3)
                           | (Inr _, nd3) \<Rightarrow> host_poke4 (0x8000d8a0 + 12) 0x60000000 nd3)))"
    using TARGET_VERSION_1_07 by (simp add: patch_boot_id_check_def patch_addr_def)
  moreover have "(0::int) \<le> 0x8000d8a0" "(0x8000d8a0::int) + 12 < 2 ^ 32" by simp_all
  note four_pokes [OF assms this]
  ultimately show ?thesis
    using TARGET_VERSION_1_07 by simp
next
  case TARGET_VERSION_2_03
  have "patch_boot_id_check nd =
      (case host_poke4 (0x8000CC6C + 0) 0x4e800020 nd of
                   (Inl e, nd1) \<Rightarrow> (Inl e, nd1)
                 | (Inr _, nd1) \<Rightarrow>
                     (case host_poke4 (0x8000CC6C + 4) 0x38600000 nd1 of
                        (Inl e, nd2) \<Rightarrow> (Inl e, nd2)
                      | (Inr _, nd2) \<Rightarrow>
                          (case host_poke4 (0x8000CC6C + 8) 0x4e800020 nd2 of
                             (Inl e, nd3) \<Rightarrow> (Inl e, nd3)
                           | (Inr _, nd3) \<Rightarrow> host_poke4 (0x8000CC6C + 12) 0x60000000 nd3)))"
    using TARGET_VERSION_2_03 by (simp add: patch_boot_id_check_def patch_addr_def)
  moreover have "(0::int) \<le> 0x8000CC6C" "(0x8000CC6C::int) + 12 < 2 ^ 32" by simp_all
  note four_pokes [OF assms this]
  ultimately show ?thesis
    using TARGET_VERSION_2_03 by simp
next
  case TARGET_VERSION_2_15
  have "patch_boot_id_check nd =
      (case host_poke4 (0x8000CC6C + 0) 0x4e800020 nd of
                   (Inl e, nd1) \<Rightarrow> (Inl e, nd1)
                 | (Inr _, nd1) \<Rightarrow>
                     (case host_poke4 (0x8000CC6C + 4) 0x38600000 nd1 of
                        (Inl e, nd2) \<Rightarrow> (Inl e, nd2)
                      | (Inr _, nd2) \<Rightarrow>
                          (case host_poke4 (0x8000CC6C + 8) 0x4e800020 nd2 of
                             (Inl e, nd3) \<Rightarrow> (Inl e, nd3)
                           | (Inr _, nd3) \<Rightarrow> host_poke4 (0x8000CC6C + 12) 0x60000000 nd3)))"
    using TARGET_VERSION_2_15 by (simp add: patch_boot_id_check_def patch_addr_def)
  moreover have "(0::int) \<le> 0x8000CC6C" "(0x8000CC6C::int) + 12 < 2 ^ 32" by simp_all
  note four_pokes [OF assms this]
  ultimately show ?thesis
    using TARGET_VERSION_2_15 by simp
qed


text \<open>
  C4. \<open>reboot\<close> on a reachable device returns normally having sent the startup no-op,
  the restart packet and the time limit of 10 minutes, and then the host-pokes of the
  boot-ID patch, as (address, value): on a Triforce target with firmware 3.01 exactly
  one, (0x8000DC5C, 0x4800001C); with firmware 1.07, 2.03 or 2.15 exactly four, in order
  (base + 0, 0x4E800020), (base + 4, 0x38600000), (base + 8, 0x4E800020),
  (base + 12, 0x60000000), where base is 0x8000D8A0 for 1.07 and 0x8000CC6C for 2.03 and
  2.15; with any other firmware none; and on a target that is not a Triforce none.
\<close>

theorem reboot_patches_boot_id_check:
  assumes "reachable env" "SendError \<notin> set (script_out env)"
  shows "\<exists>nd'. reboot env nd = Some (Inr (), nd')
         \<and> sent (socks nd' ! length (socks nd)) =
             frame \<lparr>pktid = 0x01, flags = 0x00, data = []\<rparr>
             # frame \<lparr>pktid = 0x0A, flags = 0x00, data = []\<rparr>
             # frame \<lparr>pktid = 0x17, flags = 0x00, data = le_bytes 4 10\<rparr>
             # map (\<lambda>(a, v). frame (poke_packet a v))
                  (if target nd = TARGET_TRIFORCE
                   then (if version nd = TARGET_VERSION_3_01
                         then [(0x8000DC5C, 0x4800001C)]
                         else if version nd = TARGET_VERSION_1_07
                         then [(0x8000D8A0 + 0, 0x4E800020), (0x8000D8A0 + 4, 0x38600000),
                               (0x8000D8A0 + 8, 0x4E800020), (0x8000D8A0 + 12, 0x60000000)]
                         else if version nd = TARGET_VERSION_2_03 \<or> version nd = TARGET_VERSION_2_15
                         then [(0x8000CC6C + 0, 0x4E800020), (0x8000CC6C + 4, 0x38600000),
                               (0x8000CC6C + 8, 0x4E800020), (0x8000CC6C + 12, 0x60000000)]
                         else [])
                   else [])"
proof -
  let ?h = "length (socks nd)"
  let ?ps = "map (\<lambda>(a, v). frame (poke_packet a v))
                  (if target nd = TARGET_TRIFORCE
                   then (if version nd = TARGET_VERSION_3_01
                         then [(0x8000DC5C, 0x4800001C)]
                         else if version nd = TARGET_VERSION_1_07
                         then [(0x8000D8A0 + 0, 0x4E800020), (0x8000D8A0 + 4, 0x38600000),
                               (0x8000D8A0 + 8, 0x4E800020), (0x8000D8A0 + 12, 0x60000000)]
                         else if version nd = TARGET_VERSION_2_03 \<or> version nd = TARGET_VERSION_2_15
                         then [(0x8000CC6C + 0, 0x4E800020), (0x8000CC6C + 4, 0x38600000),
                               (0x8000CC6C + 8, 0x4E800020), (0x8000CC6C + 12, 0x60000000)]
                         else [])
                   else [])"
  let ?body = "\<lambda>nd1.
          (case restart nd1 of
             (Inl e, nd2) \<Rightarrow> Some (Inl e, nd2)
           | (Inr _, nd2) \<Rightarrow>
               (case set_time_limit 10 nd2 of
                  (Inl e, nd3) \<Rightarrow> Some (Inl e, nd3)
                | (Inr _, nd3) \<Rightarrow>
                    (if target nd3 = TARGET_TRIFORCE
                     then Some (patch_boot_id_check nd3)
                     else Some (Inr (), nd3))))"
  have body: "\<exists>nd4. ?body nd1 = Some (Inr (), nd4) \<and>
       sends nd1 ?h (frame \<lparr>pktid = 0x0A, flags = 0x00, data = []\<rparr>
             # frame \<lparr>pktid = 0x17, flags = 0x00, data = le_bytes 4 10\<rparr> # ?ps) nd4"
    if u1: "usable nd1 ?h" and t1: "target nd1 = target nd" and v1: "version nd1 = version nd"
    for nd1
  proof -
    obtain nd2 where r: "restart nd1 = (Inr (), nd2)"
      and s12: "sends nd1 ?h [frame \<lparr>pktid = 0x0A, flags = 0x00, data = []\<rparr>] nd2"
      using restart_sends [OF u1] by blast
    have u2: "usable nd2 ?h" using sends_usable [OF u1 s12] .
    obtain nd3 where tl: "set_time_limit 10 nd2 = (Inr (), nd3)"
      and s23: "sends nd2 ?h [frame \<lparr>pktid = 0x17, flags = 0x00, data = le_bytes 4 10\<rparr>] nd3"
      using set_time_limit_sends [OF u2, of 10] by auto
    have u3: "usable nd3 ?h" using sends_usable [OF u2 s23] .
    have t3: "target nd3 = target nd" and v3: "version nd3 = version nd"
      using s12 s23 t1 v1 by (simp_all add: sends_def)
    have "\<exists>nd4. (if target nd3 = TARGET_TRIFORCE
                     then Some (patch_boot_id_check nd3)
                     else Some (Inr (), nd3)) = Some (Inr (), nd4) \<and> sends nd3 ?h ?ps nd4"
    proof (cases "target nd = TARGET_TRIFORCE")
      case False
      then show ?thesis using sends_refl [OF u3] t3 by simp
    next
      case True
      then have "target nd3 = TARGET_TRIFORCE" using t3 by simp
      then show ?thesis
        using patch_boot_id_check_sends [OF u3] unfolding v3
        by (simp only: True simp_thms if_True option.inject)
    qed
    then obtain nd4 where p: "(if target nd3 = TARGET_TRIFORCE
                     then Some (patch_boot_id_check nd3)
                     else Some (Inr (), nd3)) = Some (Inr (), nd4)"
      and s34: "sends nd3 ?h ?ps nd4" by blast
    have "?body nd1 = Some (Inr (), nd4)"
      by (simp only: r tl prod.case sum.case p)
    moreover have "sends nd1 ?h (frame \<lparr>pktid = 0x0A, flags = 0x00, data = []\<rparr>
             # frame \<lparr>pktid = 0x17, flags = 0x00, data = le_bytes 4 10\<rparr> # ?ps) nd4"
      using sends_trans [OF sends_trans [OF s12 s23] s34] by (simp only: append.simps)
    ultimately show ?thesis by blast
  qed
  from connection_runs [where body = ?body and r = "Inr ()", OF assms(1,2) body]
  show ?thesis
    unfolding reboot_def by blast
qed

theorem reboot_patches_boot_id_check_witness:
  "reachable \<lparr>reachable = True, script_in = [], script_out = []\<rparr>
   \<and> SendError \<notin> set (script_out \<lparr>reachable = True, script_in = [], script_out = []\<rparr>)
   \<and> (\<exists>nd'. reboot \<lparr>reachable = True, script_in = [], script_out = []\<rparr>
               (NetDimm_init ''192.168.1.2'' (Some TARGET_TRIFORCE) (Some TARGET_VERSION_3_01) False)
             = Some (Inr (), nd')
        \<and> sent (socks nd' ! 0) =
            [frame \<lparr>pktid = 0x01, flags = 0x00, data = []\<rparr>,
             frame \<lparr>pktid = 0x0A, flags = 0x00, data = []\<rparr>,
             frame \<lparr>pktid = 0x17, flags = 0x00, data = le_bytes 4 10\<rparr>,
             frame (poke_packet 0x8000DC5C 0x4800001C)])
   \<and> (\<exists>nd'. reboot \<lparr>reachable = True, script_in = [], script_out = []\<rparr>
               (NetDimm_init ''192.168.1.2'' (Some TARGET_TRIFORCE) (Some TARGET_VERSION_1_07) False)
             = Some (Inr (), nd')
        \<and> sent (socks nd' ! 0) =
            [frame \<lparr>pktid = 0x01, flags = 0x00, data = []\<rparr>,
             frame \<lparr>pktid = 0x0A, flags = 0x00, data = []\<rparr>,
             frame \<lparr>pktid = 0x17, flags = 0x00, data = le_bytes 4 10\<rparr>,
             frame (poke_packet 0x8000D8A0 0x4E800020),
             frame (poke_packet 0x8000D8A4 0x38600000),
             frame (poke_packet 0x8000D8A8 0x4E800020),
             frame (poke_packet 0x8000D8AC 0x60000000)])
   \<and> (\<exists>nd'. reboot \<lparr>reachable = True, script_in = [], script_out = []\<rparr>
               (NetDimm_init ''192.168.1.2'' (Some TARGET_TRIFORCE) (Some TARGET_VERSION_4_01) False)
             = Some (Inr (), nd')
        \<and> sent (socks nd' ! 0) =
            [frame \<lparr>pktid = 0x01, flags = 0x00, data = []\<rparr>,
             frame \<lparr>pktid = 0x0A, flags = 0x00, data = []\<rparr>,
             frame \<lparr>pktid = 0x17, flags = 0x00, data = le_bytes 4 10\<rparr>])
   \<and> (\<exists>nd'. reboot \<lparr>reachable = True, script_in = [], script_out = []\<rparr>
               (NetDimm_init ''192.168.1.2'' None (Some TARGET_VERSION_3_01) False)
             = Some (Inr (), nd')
        \<and> sent (socks nd' ! 0) =
            [frame \<lparr>pktid = 0x01, flags = 0x00, data = []\<rparr>,
             frame \<lparr>pktid = 0x0A, flags = 0x00, data = []\<rparr>,
             frame \<lparr>pktid = 0x17, flags = 0x00, data = le_bytes 4 10\<rparr>])"
proof -
  let ?env = "\<lparr>reachable = True, script_in = [], script_out = []\<rparr>"
  have h1: "reachable ?env" by simp
  have h2: "SendError \<notin> set (script_out ?env)" by simp
  have a: "\<exists>nd'. reboot ?env
               (NetDimm_init ''192.168.1.2'' (Some TARGET_TRIFORCE) (Some TARGET_VERSION_3_01) False)
             = Some (Inr (), nd')
        \<and> sent (socks nd' ! 0) =
            [frame \<lparr>pktid = 0x01, flags = 0x00, data = []\<rparr>,
             frame \<lparr>pktid = 0x0A, flags = 0x00, data = []\<rparr>,
             frame \<lparr>pktid = 0x17, flags = 0x00, data = le_bytes 4 10\<rparr>,
             frame (poke_packet 0x8000DC5C 0x4800001C)]"
    using reboot_patches_boot_id_check [OF h1 h2,
        of "NetDimm_init ''192.168.1.2'' (Some TARGET_TRIFORCE) (Some TARGET_VERSION_3_01) False"]
    by (simp add: NetDimm_init_def)
  have b: "\<exists>nd'. reboot ?env
               (NetDimm_init ''192.168.1.2'' (Some TARGET_TRIFORCE) (Some TARGET_VERSION_1_07) False)
             = Some (Inr (), nd')
        \<and> sent (socks nd' ! 0) =
            [frame \<lparr>pktid = 0x01, flags = 0x00, data = []\<rparr>,
             frame \<lparr>pktid = 0x0A, flags = 0x00, data = []\<rparr>,
             frame \<lparr>pktid = 0x17, flags = 0x00, data = le_bytes 4 10\<rparr>,
             frame (poke_packet 0x8000D8A0 0x4E800020),
             frame (poke_packet 0x8000D8A4 0x38600000),
             frame (poke_packet 0x8000D8A8 0x4E800020),
             frame (poke_packet 0x8000D8AC 0x60000000)]"
    using reboot_patches_boot_id_check [OF h1 h2,
        of "NetDimm_init ''192.168.1.2'' (Some TARGET_TRIFORCE) (Some TARGET_VERSION_1_07) False"]
    by (simp add: NetDimm_init_def)
  have c: "\<exists>nd'. reboot ?env
               (NetDimm_init ''192.168.1.2'' (Some TARGET_TRIFORCE) (Some TARGET_VERSION_4_01) False)
             = Some (Inr (), nd')
        \<and> sent (socks nd' ! 0) =
            [frame \<lparr>pktid = 0x01, flags = 0x00, data = []\<rparr>,
             frame \<lparr>pktid = 0x0A, flags = 0x00, data = []\<rparr>,
             frame \<lparr>pktid = 0x17, flags = 0x00, data = le_bytes 4 10\<rparr>]"
    using reboot_patches_boot_id_check [OF h1 h2,
        of "NetDimm_init ''192.168.1.2'' (Some TARGET_TRIFORCE) (Some TARGET_VERSION_4_01) False"]
    by (simp add: NetDimm_init_def)
  have d: "\<exists>nd'. reboot ?env
               (NetDimm_init ''192.168.1.2'' None (Some TARGET_VERSION_3_01) False)
             = Some (Inr (), nd')
        \<and> sent (socks nd' ! 0) =
            [frame \<lparr>pktid = 0x01, flags = 0x00, data = []\<rparr>,
             frame \<lparr>pktid = 0x0A, flags = 0x00, data = []\<rparr>,
             frame \<lparr>pktid = 0x17, flags = 0x00, data = le_bytes 4 10\<rparr>]"
    using reboot_patches_boot_id_check [OF h1 h2,
        of "NetDimm_init ''192.168.1.2'' None (Some TARGET_VERSION_3_01) False"]
    by (simp add: NetDimm_init_def)
  from h1 h2 a b c d show ?thesis by (intro conjI)
qed

subsection \<open>Device information\<close>

text \<open>
  What \<open>info\<close> returns when the device answers the request 0x18 with a packet 0x18 of
  twelve bytes: the five fields of the payload, little-endian.
\<close>

lemma get_information_reply:
  assumes "usable nd h"
    and "inbound (socks nd ! h) = Data ([0x0C, 0, 0, 0x18] @ payload) # rest"
    and "length payload = 12"
  shows "\<exists>nd'. get_information nd =
           Some (Inr \<lparr>current_game_crc = le_int (drop 8 payload),
                      memory_size = le_int (take 2 (drop 6 payload)),
                      firmware_version =
                        (case TargetVersionEnum_of (version_str (le_int (take 2 (drop 2 payload)))) of
                           Inl _ \<Rightarrow> TARGET_VERSION_UNKNOWN
                         | Inr fw \<Rightarrow> fw),
                      available_game_memory = push_bit 20 (le_int (take 2 (drop 4 payload)))\<rparr>, nd')
         \<and> sends nd h [frame \<lparr>pktid = 0x18, flags = 0x00, data = []\<rparr>] nd'"
proof -
  from assms(1) have a: "sock nd = Some h" "h < length (socks nd)"
      "SendError \<notin> set (outbound (socks nd ! h))" by simp_all
  obtain nd1 where sp: "send_packet \<lparr>pktid = 0x18, flags = 0x00, data = []\<rparr> nd = (Inr (), nd1)"
    and s1: "sends nd h [frame \<lparr>pktid = 0x18, flags = 0x00, data = []\<rparr>] nd1"
    and in1: "inbound (socks nd1 ! h) = inbound (socks nd ! h)"
    using send_packet_sends [OF a] by blast
  have u1: "usable nd1 h" using sends_usable [OF assms(1) s1] .
  have hdr: "le_int [0x0C, 0, 0, 0x18 :: byte] = 0x1800000C" by (simp add: le_int_def)
  have len: "le_int [0x0C, 0, 0, 0x18 :: byte] AND 0xFFFF = int (length payload)"
    unfolding hdr using assms(3) by simp
  have ne: "payload \<noteq> []" using assms(3) by auto
  from u1 have b: "sock nd1 = Some h" "h < length (socks nd1)" by simp_all
  have in1': "inbound (socks nd1 ! h) = Data ([0x0C, 0, 0, 0x18] @ payload) # rest"
    using in1 assms(2) by simp
  obtain nd2 where rp: "recv_packet nd1 =
           Some (Inr \<lparr>pktid = drop_bit 24 (le_int [0x0C, 0, 0, 0x18 :: byte]) AND 0xFF,
                      flags = drop_bit 16 (le_int [0x0C, 0, 0, 0x18 :: byte]) AND 0xFF,
                      data = payload\<rparr>, nd2)"
    and f: "sock nd2 = sock nd1" "target nd2 = target nd1" "version nd2 = version nd1"
      "progress nd2 = progress nd1" "length (socks nd2) = length (socks nd1)"
      "outbound (socks nd2 ! h) = outbound (socks nd1 ! h)"
      "sent (socks nd2 ! h) = sent (socks nd1 ! h)"
      "closes (socks nd2 ! h) = closes (socks nd1 ! h)"
    using recv_packet_reply [OF b in1' _ ne len] by auto
  have s2: "sends nd h [frame \<lparr>pktid = 0x18, flags = 0x00, data = []\<rparr>] nd2"
    using s1 f by (simp add: sends_def)
  have "get_information nd =
           Some (Inr \<lparr>current_game_crc = le_int (drop 8 payload),
                      memory_size = le_int (take 2 (drop 6 payload)),
                      firmware_version =
                        (case TargetVersionEnum_of (version_str (le_int (take 2 (drop 2 payload)))) of
                           Inl _ \<Rightarrow> TARGET_VERSION_UNKNOWN
                         | Inr fw \<Rightarrow> fw),
                      available_game_memory = push_bit 20 (le_int (take 2 (drop 4 payload)))\<rparr>, nd2)"
    unfolding get_information_def
    by (simp add: sp rp hdr unpack_HHHHI_def assms(3))
  with s2 show ?thesis by blast
qed

lemma info_reply:
  assumes "reachable env" "SendError \<notin> set (script_out env)"
    and "script_in env = Data ([0x0C, 0, 0, 0x18] @ payload) # rest"
    and "length payload = 12"
  shows "\<exists>nd'. info env nd =
           Some (Inr \<lparr>current_game_crc = le_int (drop 8 payload),
                      memory_size = le_int (take 2 (drop 6 payload)),
                      firmware_version =
                        (case TargetVersionEnum_of (version_str (le_int (take 2 (drop 2 payload)))) of
                           Inl _ \<Rightarrow> TARGET_VERSION_UNKNOWN
                         | Inr fw \<Rightarrow> fw),
                      available_game_memory = push_bit 20 (le_int (take 2 (drop 4 payload)))\<rparr>, nd')
         \<and> sent (socks nd' ! length (socks nd)) =
             [frame \<lparr>pktid = 0x01, flags = 0x00, data = []\<rparr>,
              frame \<lparr>pktid = 0x18, flags = 0x00, data = []\<rparr>]
         \<and> closes (socks nd' ! length (socks nd)) = 1 \<and> sock nd' = None"
proof -
  let ?h = "length (socks nd)"
  let ?r = "Inr \<lparr>current_game_crc = le_int (drop 8 payload),
                      memory_size = le_int (take 2 (drop 6 payload)),
                      firmware_version =
                        (case TargetVersionEnum_of (version_str (le_int (take 2 (drop 2 payload)))) of
                           Inl _ \<Rightarrow> TARGET_VERSION_UNKNOWN
                         | Inr fw \<Rightarrow> fw),
                      available_game_memory = push_bit 20 (le_int (take 2 (drop 4 payload)))\<rparr>"
  have body: "\<exists>nd2. get_information nd1 = Some (?r, nd2) \<and>
       sends nd1 ?h [frame \<lparr>pktid = 0x18, flags = 0x00, data = []\<rparr>] nd2"
    if u1: "usable nd1 ?h" and in1: "inbound (socks nd1 ! ?h) = script_in env" for nd1
  proof -
    have in2: "inbound (socks nd1 ! ?h) = Data ([0x0C, 0, 0, 0x18] @ payload) # rest"
      using in1 assms(3) by simp
    show ?thesis using get_information_reply [OF u1 in2 assms(4)] .
  qed
  from connection_runs [where body = get_information and r = ?r, OF assms(1,2) body]
  show ?thesis
    unfolding info_def by blast
qed

lemma version_str_3_12: "version_str 0x030C = ''3.12''"
  by (simp add: version_str_def format_02_def str_nat.simps)

lemma info_reply_example:
  "\<exists>nd'. info \<lparr>reachable = True,
                script_in = [Data [0x0C, 0x00, 0x00, 0x18, 0x34, 0x12, 0x0C, 0x03,
                                   0x00, 0x01, 0x00, 0x02, 0xDE, 0xAD, 0xBE, 0xEF]],
                script_out = []\<rparr>
             (NetDimm_init ''192.168.1.2'' None None False) =
      Some (Inr \<lparr>current_game_crc = 0xEFBEADDE, memory_size = 0x0200,
                 firmware_version = TARGET_VERSION_UNKNOWN,
                 available_game_memory = 0x10000000\<rparr>, nd')
    \<and> sent (socks nd' ! 0) = [[0, 0, 0, 1], [0, 0, 0, 0x18]]
    \<and> closes (socks nd' ! 0) = 1 \<and> sock nd' = None"
proof -
  let ?env = "\<lparr>reachable = True,
                script_in = [Data [0x0C, 0x00, 0x00, 0x18, 0x34, 0x12, 0x0C, 0x03,
                                   0x00, 0x01, 0x00, 0x02, 0xDE, 0xAD, 0xBE, 0xEF :: byte]],
                script_out = []\<rparr>"
  let ?nd = "NetDimm_init ''192.168.1.2'' None None False"
  let ?payload = "[0x34, 0x12, 0x0C, 0x03, 0x00, 0x01, 0x00, 0x02, 0xDE, 0xAD, 0xBE, 0xEF :: byte]"
  have h1: "reachable ?env" by simp
  have h2: "SendError \<notin> set (script_out ?env)" by simp
  have h3: "script_in ?env = Data ([0x0C, 0, 0, 0x18] @ ?payload) # []" by simp
  have h4: "length ?payload = 12" by simp
  have f1: "frame \<lparr>pktid = 0x01, flags = 0x00, data = []\<rparr> = [0, 0, 0, 1]"
    by (simp add: header_word_def le_bytes_def upt_rec)
  have f2: "frame \<lparr>pktid = 0x18, flags = 0x00, data = []\<rparr> = [0, 0, 0, 0x18]"
    by (simp add: header_word_def le_bytes_def upt_rec)
  have v: "le_int (take 2 (drop 2 ?payload)) = 0x030C" by (simp add: le_int_def)
  have fw: "(case TargetVersionEnum_of (version_str (le_int (take 2 (drop 2 ?payload)))) of
                           Inl _ \<Rightarrow> TARGET_VERSION_UNKNOWN
                         | Inr fw \<Rightarrow> fw) = TARGET_VERSION_UNKNOWN"
    unfolding v version_str_3_12
    by (simp add: TargetVersionEnum_of_def TargetVersionEnum_members_def)
  have c: "le_int (drop 8 ?payload) = 0xEFBEADDE" by (simp add: le_int_def)
  have m: "le_int (take 2 (drop 6 ?payload)) = 0x0200" by (simp add: le_int_def)
  have g: "push_bit 20 (le_int (take 2 (drop 4 ?payload))) = 0x10000000"
    by (simp add: le_int_def push_bit_eq_mult)
  from info_reply [OF h1 h2 h3 h4, of ?nd]
  show ?thesis
    unfolding fw c m g f1 f2 by (simp add: NetDimm_init_def)
qed


text \<open>
  C5. On the reply with packet id 0x18 and the payload
  \<open>34 12 0C 03 00 01 00 02 DE AD BE EF\<close>, \<open>info\<close> returns the firmware version unknown
  (the version string is \<open>3.12\<close>, which is no member of the enumeration), the memory size
  0x0200, the CRC 0xEFBEADDE, and the available game memory \<open>0x0100 << 20\<close>, which is
  256 MiB (268435456 bytes); it has sent the startup no-op and the request, and closed
  the socket.
\<close>

theorem info_decodes_reply:
  "version_str 0x030C = ''3.12''
   \<and> TargetVersionEnum_of ''3.12'' = Inl ValueError
   \<and> (\<exists>nd'. info \<lparr>reachable = True,
                script_in = [Data [0x0C, 0x00, 0x00, 0x18, 0x34, 0x12, 0x0C, 0x03,
                                   0x00, 0x01, 0x00, 0x02, 0xDE, 0xAD, 0xBE, 0xEF]],
                script_out = []\<rparr>
             (NetDimm_init ''192.168.1.2'' None None False) =
          Some (Inr \<lparr>current_game_crc = 0xEFBEADDE, memory_size = 0x0200,
                     firmware_version = TARGET_VERSION_UNKNOWN,
                     available_game_memory = 256 * 2 ^ 20\<rparr>, nd')
        \<and> sent (socks nd' ! 0) = [[0, 0, 0, 1], [0, 0, 0, 0x18]]
        \<and> closes (socks nd' ! 0) = 1 \<and> sock nd' = None)"
proof -
  have "TargetVersionEnum_of ''3.12'' = Inl ValueError"
    by (simp add: TargetVersionEnum_of_def TargetVersionEnum_members_def)
  moreover have "(256::int) * 2 ^ 20 = 0x10000000" by simp
  ultimately show ?thesis
    using version_str_3_12 info_reply_example by simp
qed

text \<open>
  The available game memory of that reply is not 16 MiB: \<open>0x0100\<close> is 256, and the
  field counts megabytes.
\<close>

theorem info_available_game_memory_counterexample:
  "\<exists>nd' i. info \<lparr>reachable = True,
                script_in = [Data [0x0C, 0x00, 0x00, 0x18, 0x34, 0x12, 0x0C, 0x03,
                                   0x00, 0x01, 0x00, 0x02, 0xDE, 0xAD, 0xBE, 0xEF]],
                script_out = []\<rparr>
             (NetDimm_init ''192.168.1.2'' None None False) = Some (Inr i, nd')
     \<and> available_game_memory i = 268435456
     \<and> available_game_memory i \<noteq> 16 * 2 ^ 20"
proof -
  from info_reply_example obtain nd' where
    "info \<lparr>reachable = True,
                script_in = [Data [0x0C, 0x00, 0x00, 0x18, 0x34, 0x12, 0x0C, 0x03,
                                   0x00, 0x01, 0x00, 0x02, 0xDE, 0xAD, 0xBE, 0xEF]],
                script_out = []\<rparr>
             (NetDimm_init ''192.168.1.2'' None None False) =
      Some (Inr \<lparr>current_game_crc = 0xEFBEADDE, memory_size = 0x0200,
                 firmware_version = TARGET_VERSION_UNKNOWN,
                 available_game_memory = 0x10000000\<rparr>, nd')"
    by blast
  moreover have "available_game_memory \<lparr>current_game_crc = 0xEFBEADDE, memory_size = 0x0200,
                 firmware_version = TARGET_VERSION_UNKNOWN,
                 available_game_memory = 0x10000000\<rparr> = 268435456" by simp
  moreover have "available_game_memory \<lparr>current_game_crc = 0xEFBEADDE, memory_size = 0x0200,
                 firmware_version = TARGET_VERSION_UNKNOWN,
                 available_game_memory = 0x10000000\<rparr> \<noteq> 16 * 2 ^ 20" by simp
  ultimately show ?thesis by blast
qed

end
